theory Spec2Isabelle
  imports Main "HOL-Library.AList"
begin

section \<open>Python values shared by the modules\<close>

text \<open>
  A Python exception is its class and the text \<open>str(e)\<close> that the f-strings of the
  source print. Only the classes that some \<open>except\<close> clause of the source tells apart
  (or that the source raises itself) are named; every other subclass of \<open>Exception\<close>
  is \<open>OtherException\<close> with its class name.
\<close>

datatype exc_class =
    RuntimeError
  | ValueError
  | TimeoutError
  | AttributeError
  | ValidationError
  | JSONDecodeError
  | BLENotAvailableError
  | WebSocketDisconnect
  | BinasciiError
  | OtherException string

datatype pyexc = Exc exc_class string

fun exc_cls :: "pyexc \<Rightarrow> exc_class" where
  "exc_cls (Exc c m) = c"

fun exc_str :: "pyexc \<Rightarrow> string" where
  "exc_str (Exc c m) = m"

text \<open>
  \<open>str.upper()\<close> on ASCII text. Strings are lists of 8-bit characters and stand for
  ASCII texts: \<open>upper\<close> maps the letters a to z and leaves every other character as it
  is. On text outside ASCII Python's \<open>str.upper()\<close> does more (it maps the ligature
  U+FB00 to the two letters FF, for one), and that is not modelled: what is proved below
  about \<open>upper\<close> is proved for ASCII input.
\<close>

definition upper_char :: "char \<Rightarrow> char" where
  "upper_char c =
     (case map_of (zip ''abcdefghijklmnopqrstuvwxyz'' ''ABCDEFGHIJKLMNOPQRSTUVWXYZ'') c of
        Some u \<Rightarrow> u
      | None \<Rightarrow> c)"

definition upper :: "string \<Rightarrow> string" where
  "upper s = map upper_char s"

text \<open>\<open>s.replace(old, new)\<close> for one-character \<open>old\<close> and \<open>new\<close>.\<close>

definition replace_char :: "char \<Rightarrow> char \<Rightarrow> string \<Rightarrow> string" where
  "replace_char old new s = map (\<lambda>c. if c = old then new else c) s"

section \<open>schemas.py: MAC address validation\<close>

text \<open>
  The validator of \<open>DiscoveredDevice\<close> (and, with the same body, of the three other
  models of schemas.py):
  \<^verbatim>\<open>
    v = v.upper().replace("-", ":")
    if not re.match(r"^([0-9A-F]{2}:){5}[0-9A-F]{2}$", v):
        raise ValueError("Invalid MAC address format. Expected format: AA:BB:CC:DD:EE:FF")
    return v
  \<close>
  The regular expression is matched piece by piece. Each piece consumes a prefix of the
  text and returns the rest, or \<open>None\<close> when it does not match; the pattern has no
  alternative and no optional part, so there is nothing to backtrack over.
\<close>

definition is_hex_upper :: "char \<Rightarrow> bool" where
  "is_hex_upper c = (c \<in> set ''0123456789ABCDEF'')"

text \<open>\<open>[0-9A-F]{2}\<close>\<close>

fun match_hex_pair :: "string \<Rightarrow> string option" where
  "match_hex_pair (a # b # rest) = (if is_hex_upper a \<and> is_hex_upper b then Some rest else None)"
| "match_hex_pair _ = None"

text \<open>\<open>[0-9A-F]{2}:\<close>\<close>

definition match_hex_pair_colon :: "string \<Rightarrow> string option" where
  "match_hex_pair_colon s =
     (case match_hex_pair s of
        Some (c # rest) \<Rightarrow> if c = CHR '':'' then Some rest else None
      | _ \<Rightarrow> None)"

text \<open>\<open>([0-9A-F]{2}:){n}\<close>\<close>

fun match_groups :: "nat \<Rightarrow> string \<Rightarrow> string option" where
  "match_groups 0 s = Some s"
| "match_groups (Suc n) s =
     (case match_hex_pair_colon s of None \<Rightarrow> None | Some rest \<Rightarrow> match_groups n rest)"

text \<open>
  Python's \<open>$\<close> (without \<open>re.MULTILINE\<close>) matches at the end of the text and also just
  before a line feed that is the last character of the text.
\<close>

definition at_dollar :: "string \<Rightarrow> bool" where
  "at_dollar s = (s = [] \<or> s = [CHR 0x0A])"

definition mac_regex_match :: "string \<Rightarrow> bool" where
  "mac_regex_match v =
     (case match_groups 5 v of
        None \<Rightarrow> False
      | Some rest \<Rightarrow> (case match_hex_pair rest of None \<Rightarrow> False | Some rest' \<Rightarrow> at_dollar rest'))"

definition validate_mac_address :: "string \<Rightarrow> pyexc + string" where
  "validate_mac_address v0 =
     (let v = replace_char (CHR ''-'') (CHR '':'') (upper v0) in
      if \<not> mac_regex_match v
      then Inl (Exc ValueError ''Invalid MAC address format. Expected format: AA:BB:CC:DD:EE:FF'')
      else Inr v)"

text \<open>
  The canonical form of the data model: exactly six pairs of upper-case hexadecimal
  digits, separated by five colons, and nothing else.
\<close>

definition canonical_mac :: "string \<Rightarrow> bool" where
  "canonical_mac v =
     (length v = 17 \<and>
      list_all (\<lambda>i. if i mod 3 = 2 then v ! i = CHR '':'' else is_hex_upper (v ! i)) [0..<17])"

text \<open>
  The same form with the twelve digits named, followed by a rest \<open>r\<close>: what the
  pattern has read when it reaches \<open>$\<close>.
\<close>

definition mac_shape :: "string \<Rightarrow> string \<Rightarrow> bool" where
  "mac_shape v r \<longleftrightarrow>
     (\<exists>a1 a2 b1 b2 c1 c2 d1 d2 e1 e2 f1 f2.
        v = a1 # a2 # CHR '':'' # b1 # b2 # CHR '':'' # c1 # c2 # CHR '':'' # d1 # d2 # CHR '':''
              # e1 # e2 # CHR '':'' # f1 # f2 # r \<and>
        is_hex_upper a1 \<and> is_hex_upper a2 \<and> is_hex_upper b1 \<and> is_hex_upper b2 \<and>
        is_hex_upper c1 \<and> is_hex_upper c2 \<and> is_hex_upper d1 \<and> is_hex_upper d2 \<and>
        is_hex_upper e1 \<and> is_hex_upper e2 \<and> is_hex_upper f1 \<and> is_hex_upper f2)"

section \<open>config.py: the settings the connection manager reads\<close>

text \<open>
  \<open>Settings\<close> is filled from the environment; the three ESPHome time bounds are kept,
  in seconds, with the defaults of lines 41 to 44.
\<close>

record settings =
  esphome_discovery_timeout :: int
  esphome_connection_timeout :: int
  esphome_scan_duration :: int

definition default_settings :: settings where
  "default_settings =
     \<lparr>esphome_discovery_timeout = 10, esphome_connection_timeout = 30,
      esphome_scan_duration = 10\<rparr>"

section \<open>The transport as the connection manager sees it\<close>

text \<open>
  The manager talks to an \<open>APIClient\<close> object that the caller hands in. The client is
  not code of the manager: it is modelled by what the manager can observe of it. An
  awaited coroutine finishes after some seconds, raises after some seconds, or stays
  pending for ever.
\<close>

datatype 'a awaited = Finishes nat 'a | Throws nat pyexc | Pending

text \<open>
  \<open>asyncio.wait_for(aw, timeout)\<close>: the result of \<open>aw\<close> when it is there before the
  deadline, \<open>asyncio.TimeoutError\<close> (whose text is empty) otherwise; the pending
  coroutine is cancelled. An awaitable that needs exactly the whole timeout is taken to
  have missed the deadline.
\<close>

definition completes_within :: "int \<Rightarrow> 'a awaited \<Rightarrow> bool" where
  "completes_within timeout aw =
     (case aw of
        Finishes d v \<Rightarrow> int d < timeout
      | Throws d e \<Rightarrow> int d < timeout
      | Pending \<Rightarrow> False)"

definition wait_for :: "int \<Rightarrow> 'a awaited \<Rightarrow> pyexc + 'a" where
  "wait_for timeout aw =
     (if completes_within timeout aw
      then (case aw of Finishes d v \<Rightarrow> Inr v | Throws d e \<Rightarrow> Inl e | Pending \<Rightarrow> Inl (Exc TimeoutError []))
      else Inl (Exc TimeoutError []))"

type_synonym api_client = nat
type_synonym callback = nat

text \<open>
  The closure \<open>on_notification\<close> that \<open>_subscribe_notifications\<close> builds: it captures
  the variables \<open>mac_address\<close>, \<open>characteristic_uuid\<close> and \<open>callback\<close> of the enclosing
  call, in this order.
\<close>

datatype on_notification = On_notification string string callback

datatype api_call =
    Bluetooth_device_connect api_client string
  | Bluetooth_device_disconnect api_client string
  | Bluetooth_gatt_write api_client string nat "nat list" bool
  | Subscribe_bluetooth_le_raw_advertisements api_client on_notification

text \<open>
  What the world outside the manager answers. The answer to a call may depend on every
  call made before it. Only the device connect is awaited under a timeout, so only it
  is given a duration; the other calls are awaited plainly and are taken to answer
  (return, or raise an exception). \<open>callback_result\<close> is what the caller's notification
  callback does when it is called.
\<close>

record environment =
  connect_result :: "api_call list \<Rightarrow> api_client \<Rightarrow> string \<Rightarrow> unit awaited"
  call_result :: "api_call list \<Rightarrow> api_call \<Rightarrow> pyexc option"
  callback_result :: "callback \<Rightarrow> string \<Rightarrow> nat list \<Rightarrow> pyexc option"

section \<open>connection\_manager.py\<close>

record active_connection =
  mac_address :: string
  device_name :: "string option"
  proxy_name :: string
  client :: api_client
  service_uuid :: string
  notify_char_uuid :: string
  write_char_uuid :: string
  notification_callback :: "callback option"

datatype level = DEBUG | INFO | WARNING | ERROR

text \<open>
  The state: \<open>self.connections\<close>, a Python dict, is an association list in insertion
  order, read with \<open>map_of\<close>, written with \<open>AList.update\<close> (replace in place, or append)
  and \<open>AList.delete\<close>. The other fields record the effects of the manager on the world:
  the transport calls it made, the notification handlers the transport was given by a
  subscribe call that returned, the calls of notification callbacks, and the log.
\<close>

record cm_state =
  connections :: "(string \<times> active_connection) list"
  api_calls :: "api_call list"
  installed :: "on_notification list"
  callback_calls :: "(callback \<times> string \<times> nat list) list"
  logged :: "(level \<times> string) list"

definition empty_state :: cm_state where
  "empty_state = \<lparr>connections = [], api_calls = [], installed = [], callback_calls = [], logged = []\<rparr>"

definition logger :: "level \<Rightarrow> string \<Rightarrow> cm_state \<Rightarrow> cm_state" where
  "logger l m s = s\<lparr>logged := logged s @ [(l, m)]\<rparr>"

text \<open>The decimal text of a length, as an f-string prints it.\<close>

function str_nat :: "nat \<Rightarrow> string" where
  "str_nat n =
     (if n < 10 then [''0123456789'' ! n]
      else str_nat (n div 10) @ [''0123456789'' ! (n mod 10)])"
  by pat_completeness auto
termination
  by (relation "measure (\<lambda>n. n)") auto

declare str_nat.simps [simp del]

text \<open>An awaited transport call that is not the device connect.\<close>

definition call_api :: "environment \<Rightarrow> api_call \<Rightarrow> cm_state \<Rightarrow> pyexc option \<times> cm_state" where
  "call_api env c s = (call_result env (api_calls s) c, s\<lparr>api_calls := api_calls s @ [c]\<rparr>)"

text \<open>
  \<open>_subscribe_notifications\<close> (lines 205 to 246). The function returned by the
  subscribe call, which would remove the handler, is not kept by the source.
\<close>

definition subscribe_notifications ::
  "environment \<Rightarrow> api_client \<Rightarrow> string \<Rightarrow> string \<Rightarrow> callback \<Rightarrow> cm_state \<Rightarrow> (pyexc + unit) \<times> cm_state" where
  "subscribe_notifications env cl mac characteristic_uuid cb s =
     (let s1 = logger INFO (''Subscribing to notifications from '' @ characteristic_uuid @ '' on '' @ mac) s;
          h = On_notification mac characteristic_uuid cb
      in case call_api env (Subscribe_bluetooth_le_raw_advertisements cl h) s1 of
           (None, s2) \<Rightarrow>
             (Inr (), logger INFO (''Subscribed to notifications from '' @ characteristic_uuid)
                        (s2\<lparr>installed := installed s2 @ [h]\<rparr>))
         | (Some e, s2) \<Rightarrow>
             (Inl (Exc RuntimeError (''Subscription failed: '' @ exc_str e)),
              logger ERROR (''Failed to subscribe to notifications: '' @ exc_str e) s2))"

text \<open>
  \<open>disconnect_device\<close> (lines 123 to 151): the body of the \<open>try\<close>, then the
  \<open>except Exception\<close> clause, then the \<open>finally\<close> clause.
\<close>

definition disconnect_try ::
  "environment \<Rightarrow> string \<Rightarrow> active_connection \<Rightarrow> cm_state \<Rightarrow> (pyexc + unit) \<times> cm_state" where
  "disconnect_try env client_id connection s =
     (let s1 = (if notification_callback connection \<noteq> None
                then s\<lparr>connections :=
                        AList.update client_id (connection\<lparr>notification_callback := None\<rparr>) (connections s)\<rparr>
                else s)
      in case call_api env (Bluetooth_device_disconnect (client connection) (mac_address connection)) s1 of
           (Some e, s2) \<Rightarrow> (Inl e, s2)
         | (None, s2) \<Rightarrow> (Inr (), logger INFO (''Disconnected from device '' @ mac_address connection) s2))"

definition disconnect_device :: "environment \<Rightarrow> string \<Rightarrow> cm_state \<Rightarrow> (pyexc + unit) \<times> cm_state" where
  "disconnect_device env client_id s =
     (case map_of (connections s) client_id of
        None \<Rightarrow> (Inr (), logger WARNING (''No active connection for client '' @ client_id) s)
      | Some connection \<Rightarrow>
          (let s0 = logger INFO (''Disconnecting device '' @ mac_address connection @ '' for client '' @ client_id) s
           in case (case disconnect_try env client_id connection s0 of
                      (Inl e, s1) \<Rightarrow> (Inr (), logger WARNING (''Error disconnecting device: '' @ exc_str e) s1)
                    | (Inr u, s1) \<Rightarrow> (Inr u, s1)) of
                (r, s2) \<Rightarrow> (r, s2\<lparr>connections := AList.delete client_id (connections s2)\<rparr>)))"

text \<open>
  \<open>connect_device\<close> (lines 49 to 121). Its parameters \<open>mac_address\<close>, \<open>proxy_name\<close>,
  \<open>client\<close>, \<open>service_uuid\<close>, \<open>notify_char_uuid\<close>, \<open>write_char_uuid\<close>, \<open>device_name\<close>
  and \<open>notification_callback\<close> are exactly the fields of the \<open>ActiveConnection\<close> it
  stores, so they are passed as that record, \<open>c\<close>. \<open>connect_try\<close> is the body of the
  \<open>try\<close> (lines 88 to 114), \<open>connect_device\<close> adds the replacement of an existing
  connection (lines 82 and 83) and the two \<open>except\<close> clauses.
\<close>

definition connect_try ::
  "settings \<Rightarrow> environment \<Rightarrow> string \<Rightarrow> active_connection \<Rightarrow> cm_state \<Rightarrow> (pyexc + unit) \<times> cm_state" where
  "connect_try cfg env client_id c s =
     (let aw = connect_result env (api_calls s) (client c) (mac_address c);
          s1 = s\<lparr>api_calls := api_calls s @ [Bluetooth_device_connect (client c) (mac_address c)]\<rparr>
      in case wait_for (esphome_connection_timeout cfg) aw of
           Inl e \<Rightarrow> (Inl e, s1)
         | Inr u \<Rightarrow>
             (let s2 = logger INFO (''Connected to device '' @ mac_address c) s1
              in case (case notification_callback c of
                         None \<Rightarrow> (Inr (), s2)
                       | Some cb \<Rightarrow>
                           subscribe_notifications env (client c) (mac_address c) (notify_char_uuid c) cb s2) of
                   (Inl e, s3) \<Rightarrow> (Inl e, s3)
                 | (Inr v, s3) \<Rightarrow>
                     (Inr (), logger INFO (''Device connection established for client '' @ client_id)
                                (s3\<lparr>connections := AList.update client_id c (connections s3)\<rparr>))))"

text \<open>The state in which the \<open>try\<close> of \<open>connect_device\<close> starts (lines 81 to 85).\<close>

definition replace_existing :: "environment \<Rightarrow> string \<Rightarrow> active_connection \<Rightarrow> cm_state \<Rightarrow> (pyexc + unit) \<times> cm_state" where
  "replace_existing env client_id c s =
     (case (if map_of (connections s) client_id \<noteq> None
            then disconnect_device env client_id s else (Inr (), s)) of
        (Inl e, s1) \<Rightarrow> (Inl e, s1)
      | (Inr u, s1) \<Rightarrow>
          (Inr (), logger INFO (''Connecting to device '' @ mac_address c @ '' via proxy '' @ proxy_name c
                                 @ '' for client '' @ client_id) s1))"

definition connect_device ::
  "settings \<Rightarrow> environment \<Rightarrow> string \<Rightarrow> active_connection \<Rightarrow> cm_state \<Rightarrow> (pyexc + unit) \<times> cm_state" where
  "connect_device cfg env client_id c s =
     (case replace_existing env client_id c s of
        (Inl e, s1) \<Rightarrow> (Inl e, s1)
      | (Inr u, s1) \<Rightarrow>
          (case connect_try cfg env client_id c s1 of
             (Inr v, s2) \<Rightarrow> (Inr v, s2)
           | (Inl e, s2) \<Rightarrow>
               if exc_cls e = TimeoutError
               then (Inl (Exc RuntimeError ''Connection timeout - device may be out of range or busy''),
                     logger ERROR (''Timeout connecting to device '' @ mac_address c) s2)
               else (Inl (Exc RuntimeError (''Connection failed: '' @ exc_str e)),
                     logger ERROR (''Failed to connect to device '' @ mac_address c @ '': '' @ exc_str e) s2)))"

text \<open>\<open>write_characteristic\<close> (lines 153 to 203).\<close>

definition write_characteristic ::
  "environment \<Rightarrow> string \<Rightarrow> string \<Rightarrow> nat list \<Rightarrow> bool \<Rightarrow> cm_state \<Rightarrow> (pyexc + unit) \<times> cm_state" where
  "write_characteristic env client_id characteristic_uuid data with_response s =
     (case map_of (connections s) client_id of
        None \<Rightarrow> (Inl (Exc ValueError ''No active connection - connect first''), s)
      | Some connection \<Rightarrow>
          (let s1 = (if upper characteristic_uuid \<noteq> upper (write_char_uuid connection)
                     then logger WARNING (''Write to non-standard characteristic '' @ characteristic_uuid
                            @ '' (expected '' @ write_char_uuid connection @ '')'') s
                     else s);
               s2 = logger DEBUG (''Writing '' @ str_nat (length data) @ '' bytes to characteristic ''
                      @ characteristic_uuid @ '' on device '' @ mac_address connection) s1
           in case call_api env (Bluetooth_gatt_write (client connection) (mac_address connection) 0 data
                                   with_response) s2 of
                (None, s3) \<Rightarrow> (Inr (), logger DEBUG (''Write completed to '' @ characteristic_uuid) s3)
              | (Some e, s3) \<Rightarrow>
                  (Inl (Exc RuntimeError (''Write failed: '' @ exc_str e)),
                   logger ERROR (''Write failed: '' @ exc_str e) s3)))"

definition get_connection :: "string \<Rightarrow> cm_state \<Rightarrow> active_connection option" where
  "get_connection client_id s = map_of (connections s) client_id"

definition is_connected :: "string \<Rightarrow> cm_state \<Rightarrow> bool" where
  "is_connected client_id s = (map_of (connections s) client_id \<noteq> None)"

text \<open>\<open>disconnect_all\<close> (lines 256 to 263): the loop over a snapshot of the keys.\<close>

fun disconnect_each :: "environment \<Rightarrow> string list \<Rightarrow> cm_state \<Rightarrow> (pyexc + unit) \<times> cm_state" where
  "disconnect_each env [] s = (Inr (), s)"
| "disconnect_each env (client_id # rest) s =
     (case disconnect_device env client_id s of
        (Inl e, s1) \<Rightarrow> (Inl e, s1)
      | (Inr u, s1) \<Rightarrow> disconnect_each env rest s1)"

definition disconnect_all :: "environment \<Rightarrow> cm_state \<Rightarrow> (pyexc + unit) \<times> cm_state" where
  "disconnect_all env s =
     (let s1 = logger INFO (''Disconnecting '' @ str_nat (length (connections s)) @ '' active connections...'') s
      in case disconnect_each env (map fst (connections s1)) s1 of
           (Inl e, s2) \<Rightarrow> (Inl e, s2)
         | (Inr u, s2) \<Rightarrow> (Inr (), logger INFO ''All connections disconnected'' s2))"

subsection \<open>A notification arrives\<close>

text \<open>
  The payload the transport hands to \<open>on_notification\<close> is \<open>bytes\<close> or a list of
  integers; \<open>bytes(data)\<close> raises \<open>ValueError\<close> on an integer outside 0 to 255.
\<close>

datatype payload = Bytes "nat list" | IntList "int list"

fun payload_len :: "payload \<Rightarrow> nat" where
  "payload_len (Bytes bs) = length bs"
| "payload_len (IntList xs) = length xs"

fun payload_bytes :: "payload \<Rightarrow> pyexc + nat list" where
  "payload_bytes (Bytes bs) = Inr bs"
| "payload_bytes (IntList xs) =
     (if list_all (\<lambda>x. 0 \<le> x \<and> x < 256) xs then Inr (map nat xs)
      else Inl (Exc ValueError ''bytes must be in range(0, 256)''))"

text \<open>The body of the closure \<open>on_notification\<close> (lines 225 to 235).\<close>

fun on_notification_call ::
  "environment \<Rightarrow> on_notification \<Rightarrow> string \<Rightarrow> nat \<Rightarrow> payload \<Rightarrow> cm_state \<Rightarrow> cm_state" where
  "on_notification_call env (On_notification mac characteristic_uuid cb) address handle data s =
     (if upper address = upper mac
      then (let s1 = logger DEBUG (''Notification received: '' @ str_nat (payload_len data)
                       @ '' bytes from '' @ characteristic_uuid) s
            in case payload_bytes data of
                 Inl e \<Rightarrow> logger ERROR (''Error in notification callback: '' @ exc_str e) s1
               | Inr bs \<Rightarrow>
                   (let s2 = s1\<lparr>callback_calls := callback_calls s1 @ [(cb, characteristic_uuid, bs)]\<rparr>
                    in case callback_result env cb characteristic_uuid bs of
                         None \<Rightarrow> s2
                       | Some e \<Rightarrow> logger ERROR (''Error in notification callback: '' @ exc_str e) s2))
      else s)"

text \<open>
  The transport calls every handler it holds, in the order they were installed.
\<close>

definition transport_notifies :: "environment \<Rightarrow> string \<Rightarrow> nat \<Rightarrow> payload \<Rightarrow> cm_state \<Rightarrow> cm_state" where
  "transport_notifies env address handle data s =
     fold (\<lambda>h. on_notification_call env h address handle data) (installed s) s"

subsection \<open>Sequences of registry operations\<close>

datatype cm_op =
    Connect_device string active_connection
  | Disconnect_device string
  | Write_characteristic string string "nat list" bool
  | Disconnect_all
  | Notification string nat payload

fun run_op :: "settings \<Rightarrow> environment \<Rightarrow> cm_op \<Rightarrow> cm_state \<Rightarrow> cm_state" where
  "run_op cfg env (Connect_device client_id c) s = snd (connect_device cfg env client_id c s)"
| "run_op cfg env (Disconnect_device client_id) s = snd (disconnect_device env client_id s)"
| "run_op cfg env (Write_characteristic client_id u data r) s = snd (write_characteristic env client_id u data r s)"
| "run_op cfg env Disconnect_all s = snd (disconnect_all env s)"
| "run_op cfg env (Notification address handle data) s = transport_notifies env address handle data s"

definition run_ops :: "settings \<Rightarrow> environment \<Rightarrow> cm_op list \<Rightarrow> cm_state \<Rightarrow> cm_state" where
  "run_ops cfg env ops s = fold (run_op cfg env) ops s"

text \<open>The number of entries the registry holds for one session.\<close>

definition entries_for :: "string \<Rightarrow> cm_state \<Rightarrow> nat" where
  "entries_for client_id s = length (filter (\<lambda>kv. fst kv = client_id) (connections s))"

section \<open>base64, as ble\_proxy.py uses it\<close>

text \<open>
  \<open>base64.b64decode(s)\<close> and \<open>base64.b64encode(s)\<close> belong to the Python standard
  library, not to the repository; they are modelled so that the handler can be run on
  concrete frames. A byte is a natural number below 256.
\<close>

definition b64_alphabet :: string where
  "b64_alphabet = ''ABCDEFGHIJKLMNOPQRSTUVWXYZabcdefghijklmnopqrstuvwxyz0123456789+/''"

fun index_of :: "'a \<Rightarrow> 'a list \<Rightarrow> nat option" where
  "index_of x [] = None"
| "index_of x (y # ys) = (if x = y then Some 0 else map_option Suc (index_of x ys))"

definition b64_value :: "char \<Rightarrow> nat option" where
  "b64_value c = index_of c b64_alphabet"

text \<open>
  \<open>binascii.a2b_base64\<close> without strict mode, the loop of CPython 3.11 and later, with
  its variables \<open>quad_pos\<close>, \<open>leftchar\<close> and \<open>pads\<close>: a character outside the
  alphabet is skipped; a pad ends the input once it completes a quad; what is left of an
  incomplete quad at the end is an error. The shifts of the C code are written with
  multiplication and division: \<open>(leftchar << 2) | (this_ch >> 4)\<close> is
  \<open>leftchar * 4 + this_ch div 16\<close>, since the two parts share no bit, and the store to
  an unsigned char is \<open>mod 256\<close>.
\<close>

fun a2b_base64 :: "string \<Rightarrow> nat \<Rightarrow> nat \<Rightarrow> nat \<Rightarrow> nat list \<Rightarrow> pyexc + nat list" where
  "a2b_base64 [] quad_pos leftchar pads out =
     (if quad_pos \<noteq> 0
      then (if quad_pos = 1
            then Inl (Exc BinasciiError
                   (''Invalid base64-encoded string: number of data characters (''
                      @ str_nat (length out div 3 * 4 + 1) @ '') cannot be 1 more than a multiple of 4''))
            else Inl (Exc BinasciiError ''Incorrect padding''))
      else Inr out)"
| "a2b_base64 (c # cs) quad_pos leftchar pads out =
     (if c = CHR ''=''
      then (if 2 \<le> quad_pos \<and> 4 \<le> quad_pos + (pads + 1) then Inr out
            else a2b_base64 cs quad_pos leftchar (if 2 \<le> quad_pos then pads + 1 else pads) out)
      else (case b64_value c of
              None \<Rightarrow> a2b_base64 cs quad_pos leftchar pads out
            | Some this_ch \<Rightarrow>
                if quad_pos = 0 then a2b_base64 cs 1 this_ch 0 out
                else if quad_pos = 1
                  then a2b_base64 cs 2 (this_ch mod 16) 0 (out @ [(leftchar * 4 + this_ch div 16) mod 256])
                else if quad_pos = 2
                  then a2b_base64 cs 3 (this_ch mod 4) 0 (out @ [(leftchar * 16 + this_ch div 4) mod 256])
                else a2b_base64 cs 0 0 0 (out @ [(leftchar * 64 + this_ch) mod 256])))"

text \<open>
  \<open>b64decode\<close> of a \<open>str\<close>: the text is encoded as ASCII first (\<open>ValueError\<close> when
  it cannot be), then decoded with \<open>validate=False\<close>.
\<close>

definition b64decode :: "string \<Rightarrow> pyexc + nat list" where
  "b64decode s =
     (if list_all (\<lambda>c. (of_char c :: nat) < 128) s then a2b_base64 s 0 0 0 []
      else Inl (Exc ValueError ''string argument should contain only ASCII characters''))"

text \<open>
  \<open>b64encode\<close>: three bytes give four characters; one or two bytes left over are padded.
\<close>

fun b64encode :: "nat list \<Rightarrow> string" where
  "b64encode [] = []"
| "b64encode [a] = [b64_alphabet ! (a div 4), b64_alphabet ! (a mod 4 * 16), CHR ''='', CHR ''='']"
| "b64encode [a, b] =
     [b64_alphabet ! (a div 4), b64_alphabet ! (a mod 4 * 16 + b div 16),
      b64_alphabet ! (b mod 16 * 4), CHR ''='']"
| "b64encode (a # b # c # rest) =
     [b64_alphabet ! (a div 4), b64_alphabet ! (a mod 4 * 16 + b div 16),
      b64_alphabet ! (b mod 16 * 4 + c div 64), b64_alphabet ! (c mod 64)] @ b64encode rest"

section \<open>ble\_proxy.py\<close>

text \<open>
  The handler owns one WebSocket session. What it imports and the sources do not hold
  is taken as follows: \<open>json.loads\<close>, \<open>str\<close> and the pydantic message classes of
  \<open>app.schemas.ble\<close> are the fields of \<open>codec\<close>, and the BLE manager of
  \<open>app.services.ble_manager\<close> is the fields of \<open>ble_manager_ops\<close>, over a manager
  state of any type \<open>'m\<close>. Every theorem about the handler holds for every codec and
  every manager.
\<close>

text \<open>A value that \<open>json.loads\<close> returns.\<close>

datatype pyjson =
    PyNone
  | PyBool bool
  | PyInt int
  | PyFloat string
  | PyStr string
  | PyList "pyjson list"
  | PyDict "(string \<times> pyjson) list"

fun type_name :: "pyjson \<Rightarrow> string" where
  "type_name PyNone = ''NoneType''"
| "type_name (PyBool b) = ''bool''"
| "type_name (PyInt i) = ''int''"
| "type_name (PyFloat f) = ''float''"
| "type_name (PyStr s) = ''str''"
| "type_name (PyList xs) = ''list''"
| "type_name (PyDict d) = ''dict''"

text \<open>
  Modelled from the spec: the enumeration \<open>BLEMessageType\<close> of \<open>app.schemas.ble\<close> is
  not among the sources. Its members are the names the handler compares with; their
  values are the command tags of the wire protocol (section 6).
\<close>

datatype message_type = CONNECT | DISCONNECT | WRITE | SUBSCRIBE | UNSUBSCRIBE | DISCOVER

fun BLEMessageType :: "message_type \<Rightarrow> string" where
  "BLEMessageType CONNECT = ''connect''"
| "BLEMessageType DISCONNECT = ''disconnect''"
| "BLEMessageType WRITE = ''write''"
| "BLEMessageType SUBSCRIBE = ''subscribe''"
| "BLEMessageType UNSUBSCRIBE = ''unsubscribe''"
| "BLEMessageType DISCOVER = ''discover''"

text \<open>
  Modelled from the spec: the message classes of \<open>app.schemas.ble\<close> are not among the
  sources. A command carries the fields the handler reads from it, in the order
  \<open>service_uuid\<close>, \<open>device_address\<close>; \<open>characteristic_uuid\<close>, \<open>data\<close>,
  \<open>with_response\<close>; \<open>characteristic_uuid\<close>; \<open>service_uuid\<close>, \<open>timeout\<close>, typed as the
  commands of section 3; \<open>data\<close> is the text of the wire format. An event carries the
  keyword arguments the handler builds it with.
\<close>

datatype connect_message = BLEConnectMessage "string option" "string option"
datatype disconnect_message = BLEDisconnectMessage
datatype write_message = BLEWriteMessage string string bool
datatype subscribe_message = BLESubscribeMessage string
datatype unsubscribe_message = BLEUnsubscribeMessage string
datatype discover_message = BLEDiscoverMessage "string option" int

datatype device_info = Device_info string string "string list"
datatype device = Device string string int string

datatype event =
    BLEConnectedMessage string string "string list"
  | BLEDisconnectedMessage string
  | BLEStatusMessage bool "string option" string
  | BLEErrorMessage string "(string \<times> pyjson) list option"
  | BLENotificationMessage string string
  | BLEDiscoveredMessage "device list"

text \<open>
  \<open>json_loads\<close> returns the parsed value or raises; \<open>py_str\<close> is \<open>str\<close> of the value
  of \<open>message.get("type")\<close>; \<open>new_connect_message d\<close> is \<open>BLEConnectMessage(**d)\<close>,
  which returns the message or raises, and likewise for the other classes.
\<close>

record codec =
  json_loads :: "string \<Rightarrow> pyexc + pyjson"
  py_str :: "pyjson option \<Rightarrow> string"
  new_connect_message :: "(string \<times> pyjson) list \<Rightarrow> pyexc + connect_message"
  new_disconnect_message :: "(string \<times> pyjson) list \<Rightarrow> pyexc + disconnect_message"
  new_write_message :: "(string \<times> pyjson) list \<Rightarrow> pyexc + write_message"
  new_subscribe_message :: "(string \<times> pyjson) list \<Rightarrow> pyexc + subscribe_message"
  new_unsubscribe_message :: "(string \<times> pyjson) list \<Rightarrow> pyexc + unsubscribe_message"
  new_discover_message :: "(string \<times> pyjson) list \<Rightarrow> pyexc + discover_message"

text \<open>
  \<open>get_ble_manager\<close> returns the manager or raises. Each operation of the manager takes
  the manager's state and returns its result, or the exception it raises, with the new
  state. \<open>bm_connect\<close> returns the dict with \<open>name\<close>, \<open>address\<close> and \<open>services\<close>;
  \<open>bm_is_connected\<close> and \<open>bm_device_address\<close> are the attributes \<open>is_connected\<close> and
  \<open>device_address\<close>.
\<close>

record 'm ble_manager_ops =
  get_ble_manager :: "pyexc + 'm"
  bm_connect :: "string option \<Rightarrow> string option \<Rightarrow> 'm \<Rightarrow> (pyexc + device_info) \<times> 'm"
  bm_disconnect :: "'m \<Rightarrow> (pyexc + unit) \<times> 'm"
  bm_write :: "string \<Rightarrow> nat list \<Rightarrow> bool \<Rightarrow> 'm \<Rightarrow> (pyexc + unit) \<times> 'm"
  bm_subscribe :: "string \<Rightarrow> 'm \<Rightarrow> (pyexc + unit) \<times> 'm"
  bm_unsubscribe :: "string \<Rightarrow> 'm \<Rightarrow> (pyexc + unit) \<times> 'm"
  bm_discover_devices :: "string option \<Rightarrow> int \<Rightarrow> 'm \<Rightarrow> (pyexc + device list) \<times> 'm"
  bm_is_connected :: "'m \<Rightarrow> bool"
  bm_device_address :: "'m \<Rightarrow> string option"

text \<open>
  The handler: \<open>self.running\<close>, \<open>self.ble_manager\<close>, and the WebSocket as the frames
  sent so far with the results of the \<open>send_json\<close> calls to come (\<open>None\<close>: the frame
  is sent; an exception: the call raises; when the list is used up, every call sends).
\<close>

record 'm handler =
  running :: bool
  ble_manager :: "'m option"
  sent :: "event list"
  send_results :: "pyexc option list"
  handler_logged :: "(level \<times> string) list"

definition handler_logger :: "level \<Rightarrow> string \<Rightarrow> 'm handler \<Rightarrow> 'm handler" where
  "handler_logger l m h = h\<lparr>handler_logged := handler_logged h @ [(l, m)]\<rparr>"

text \<open>
  \<open>send_message\<close> (lines 224 to 230), \<open>send_error\<close> (232 to 235) and \<open>send_status\<close>
  (237 to 244). \<open>send_message\<close> catches every exception of the send, so it returns
  in every case. In \<open>if self.ble_manager and self.ble_manager.is_connected\<close> a manager
  object counts as true and \<open>None\<close> as false.
\<close>

definition send_message :: "event \<Rightarrow> 'm handler \<Rightarrow> 'm handler" where
  "send_message ev h =
     (case send_results h of
        [] \<Rightarrow> h\<lparr>sent := sent h @ [ev]\<rparr>
      | None # later \<Rightarrow> h\<lparr>sent := sent h @ [ev], send_results := later\<rparr>
      | Some e # later \<Rightarrow>
          (handler_logger ERROR (''Error sending message: '' @ exc_str e) (h\<lparr>send_results := later\<rparr>))
            \<lparr>running := False\<rparr>)"

definition send_error :: "string \<Rightarrow> (string \<times> pyjson) list option \<Rightarrow> 'm handler \<Rightarrow> 'm handler" where
  "send_error error details h = send_message (BLEErrorMessage error details) h"

definition send_status :: "'m ble_manager_ops \<Rightarrow> bool \<Rightarrow> string \<Rightarrow> 'm handler \<Rightarrow> 'm handler" where
  "send_status ops connected message h =
     (let dev_name = (case ble_manager h of
                           None \<Rightarrow> None
                         | Some m \<Rightarrow> if bm_is_connected ops m then bm_device_address ops m else None)
      in send_message (BLEStatusMessage connected dev_name message) h)"

definition no_attribute :: "string \<Rightarrow> string \<Rightarrow> string" where
  "no_attribute ty attr =
     [CHR 0x27] @ ty @ [CHR 0x27] @ '' object has no attribute '' @ [CHR 0x27] @ attr @ [CHR 0x27]"

text \<open>
  A call of a method of \<open>self.ble_manager\<close>, which raises \<open>AttributeError\<close> while the
  attribute is still \<open>None\<close>. \<open>failed\<close> is the \<open>except Exception\<close> clause that every
  command handler ends with.
\<close>

definition with_manager ::
  "string \<Rightarrow> 'm handler \<Rightarrow> ('m \<Rightarrow> (pyexc + 'a) \<times> 'm) \<Rightarrow> (pyexc + 'a) \<times> 'm handler" where
  "with_manager attr h f =
     (case ble_manager h of
        None \<Rightarrow> (Inl (Exc AttributeError (no_attribute ''NoneType'' attr)), h)
      | Some m \<Rightarrow> (case f m of (r, m') \<Rightarrow> (r, h\<lparr>ble_manager := Some m'\<rparr>)))"

definition failed :: "string \<Rightarrow> pyexc \<Rightarrow> 'm handler \<Rightarrow> 'm handler" where
  "failed what e h =
     send_error (what @ '' failed: '' @ exc_str e) None (handler_logger ERROR (what @ '' failed: '' @ exc_str e) h)"

text \<open>
  The command handlers (lines 123 to 222).
\<close>

fun handle_connect :: "'m ble_manager_ops \<Rightarrow> connect_message \<Rightarrow> 'm handler \<Rightarrow> 'm handler" where
  "handle_connect ops (BLEConnectMessage svc_uuid device_address) h =
     (case with_manager ''connect'' h (bm_connect ops svc_uuid device_address) of
        (Inl e, h1) \<Rightarrow> failed ''Connect'' e h1
      | (Inr (Device_info name address services), h1) \<Rightarrow>
          send_message (BLEConnectedMessage name address services) h1)"

fun handle_disconnect :: "'m ble_manager_ops \<Rightarrow> disconnect_message \<Rightarrow> 'm handler \<Rightarrow> 'm handler" where
  "handle_disconnect ops BLEDisconnectMessage h =
     (case with_manager ''disconnect'' h (bm_disconnect ops) of
        (Inl e, h1) \<Rightarrow> failed ''Disconnect'' e h1
      | (Inr u, h1) \<Rightarrow> send_message (BLEDisconnectedMessage ''User requested disconnect'') h1)"

fun handle_write :: "'m ble_manager_ops \<Rightarrow> write_message \<Rightarrow> 'm handler \<Rightarrow> 'm handler" where
  "handle_write ops (BLEWriteMessage characteristic_uuid data with_response) h =
     (case b64decode data of
        Inl e \<Rightarrow> failed ''Write'' e h
      | Inr bytes \<Rightarrow>
          (case with_manager ''write'' h (bm_write ops characteristic_uuid bytes with_response) of
             (Inl e, h1) \<Rightarrow> failed ''Write'' e h1
           | (Inr u, h1) \<Rightarrow>
               send_status ops True
                 (''Wrote '' @ str_nat (length bytes) @ '' bytes to '' @ characteristic_uuid) h1))"

text \<open>
  The closure \<open>notification_callback\<close> of \<open>handle_subscribe\<close> (lines 178 to 183).
\<close>

definition notification_callback_send :: "string \<Rightarrow> nat list \<Rightarrow> 'm handler \<Rightarrow> 'm handler" where
  "notification_callback_send char_uuid data h =
     send_message (BLENotificationMessage char_uuid (b64encode data)) h"

fun handle_subscribe :: "'m ble_manager_ops \<Rightarrow> subscribe_message \<Rightarrow> 'm handler \<Rightarrow> 'm handler" where
  "handle_subscribe ops (BLESubscribeMessage characteristic_uuid) h =
     (case with_manager ''subscribe'' h (bm_subscribe ops characteristic_uuid) of
        (Inl e, h1) \<Rightarrow> failed ''Subscribe'' e h1
      | (Inr u, h1) \<Rightarrow> send_status ops True (''Subscribed to '' @ characteristic_uuid) h1)"

fun handle_unsubscribe :: "'m ble_manager_ops \<Rightarrow> unsubscribe_message \<Rightarrow> 'm handler \<Rightarrow> 'm handler" where
  "handle_unsubscribe ops (BLEUnsubscribeMessage characteristic_uuid) h =
     (case with_manager ''unsubscribe'' h (bm_unsubscribe ops characteristic_uuid) of
        (Inl e, h1) \<Rightarrow> failed ''Unsubscribe'' e h1
      | (Inr u, h1) \<Rightarrow> send_status ops True (''Unsubscribed from '' @ characteristic_uuid) h1)"

fun handle_discover :: "'m ble_manager_ops \<Rightarrow> discover_message \<Rightarrow> 'm handler \<Rightarrow> 'm handler" where
  "handle_discover ops (BLEDiscoverMessage svc_uuid timeout) h =
     (case with_manager ''discover_devices'' h (bm_discover_devices ops svc_uuid timeout) of
        (Inl e, h1) \<Rightarrow> failed ''Discovery'' e h1
      | (Inr devices, h1) \<Rightarrow> send_message (BLEDiscoveredMessage devices) h1)"

text \<open>
  \<open>handle_message\<close> (lines 92 to 121): \<open>handle_message_try\<close> is the body of its
  \<open>try\<close>. \<open>validated\<close> builds the message and, when that does not raise, hands it to
  the command handler.
\<close>

definition validated ::
  "pyexc + 'a \<Rightarrow> ('a \<Rightarrow> 'm handler \<Rightarrow> 'm handler) \<Rightarrow> 'm handler \<Rightarrow> (pyexc + unit) \<times> 'm handler" where
  "validated v f h = (case v of Inl e \<Rightarrow> (Inl e, h) | Inr m \<Rightarrow> (Inr (), f m h))"

definition handle_message_try ::
  "'m ble_manager_ops \<Rightarrow> codec \<Rightarrow> string \<Rightarrow> 'm handler \<Rightarrow> (pyexc + unit) \<times> 'm handler" where
  "handle_message_try ops cd data h =
     (case json_loads cd data of
        Inl e \<Rightarrow> (Inl e, h)
      | Inr (PyDict message) \<Rightarrow>
          (let msg_type = map_of message ''type'' in
           if msg_type = Some (PyStr (BLEMessageType CONNECT))
             then validated (new_connect_message cd message) (handle_connect ops) h
           else if msg_type = Some (PyStr (BLEMessageType DISCONNECT))
             then validated (new_disconnect_message cd message) (handle_disconnect ops) h
           else if msg_type = Some (PyStr (BLEMessageType WRITE))
             then validated (new_write_message cd message) (handle_write ops) h
           else if msg_type = Some (PyStr (BLEMessageType SUBSCRIBE))
             then validated (new_subscribe_message cd message) (handle_subscribe ops) h
           else if msg_type = Some (PyStr (BLEMessageType UNSUBSCRIBE))
             then validated (new_unsubscribe_message cd message) (handle_unsubscribe ops) h
           else if msg_type = Some (PyStr (BLEMessageType DISCOVER))
             then validated (new_discover_message cd message) (handle_discover ops) h
           else (Inr (), send_error (''Unknown message type: '' @ py_str cd msg_type) None h))
      | Inr other \<Rightarrow>
          (Inl (Exc AttributeError (no_attribute (type_name other) ''get'')), h))"

definition handle_message ::
  "'m ble_manager_ops \<Rightarrow> codec \<Rightarrow> string \<Rightarrow> 'm handler \<Rightarrow> (pyexc + unit) \<times> 'm handler" where
  "handle_message ops cd data h =
     (case handle_message_try ops cd data h of
        (Inr u, h1) \<Rightarrow> (Inr u, h1)
      | (Inl e, h1) \<Rightarrow>
          if exc_cls e = ValidationError
            then (Inr (), send_error (''Invalid message format: '' @ exc_str e) None h1)
          else if exc_cls e = JSONDecodeError
            then (Inr (), send_error (''Invalid JSON: '' @ exc_str e) None h1)
          else (Inl e, h1))"

text \<open>
  The loop of \<open>handle\<close> (lines 72 to 81) over the results of the \<open>receive_text\<close>
  calls: a frame, or an exception. When the results are used up the client is gone.
\<close>

datatype received = Frame string | Raises pyexc

definition loop_except :: "pyexc \<Rightarrow> 'm handler \<Rightarrow> 'm handler" where
  "loop_except e h =
     send_error (''Error handling message: '' @ exc_str e) None
       (handler_logger ERROR (''Error handling message: '' @ exc_str e) h)"

fun message_loop :: "'m ble_manager_ops \<Rightarrow> codec \<Rightarrow> received list \<Rightarrow> 'm handler \<Rightarrow> 'm handler" where
  "message_loop ops cd [] h = (if running h then handler_logger INFO ''Client disconnected'' h else h)"
| "message_loop ops cd (r # later) h =
     (if \<not> running h then h
      else (case (case r of Raises e \<Rightarrow> (Inl e, h) | Frame data \<Rightarrow> handle_message ops cd data h) of
              (Inr u, h1) \<Rightarrow> message_loop ops cd later h1
            | (Inl e, h1) \<Rightarrow>
                if exc_cls e = WebSocketDisconnect then handler_logger INFO ''Client disconnected'' h1
                else message_loop ops cd later (loop_except e h1)))"

text \<open>
  \<open>handle\<close> (lines 52 to 90); \<open>cleanup\<close> is its \<open>finally\<close> clause.
\<close>

definition cleanup :: "'m ble_manager_ops \<Rightarrow> 'm handler \<Rightarrow> 'm handler" where
  "cleanup ops h =
     (case ble_manager h of
        None \<Rightarrow> h
      | Some m \<Rightarrow>
          if bm_is_connected ops m
          then (case bm_disconnect ops m of
                  (Inl e, m1) \<Rightarrow>
                    handler_logger ERROR (''Error during cleanup: '' @ exc_str e) (h\<lparr>ble_manager := Some m1\<rparr>)
                | (Inr u, m1) \<Rightarrow> h\<lparr>ble_manager := Some m1\<rparr>)
          else h)\<lparr>running := False\<rparr>"

definition handle ::
  "'m ble_manager_ops \<Rightarrow> codec \<Rightarrow> received list \<Rightarrow> 'm handler \<Rightarrow> (pyexc + unit) \<times> 'm handler" where
  "handle ops cd frames h0 =
     (let h = h0\<lparr>running := True\<rparr> in
      case get_ble_manager ops of
        Inl e \<Rightarrow>
          if exc_cls e = BLENotAvailableError
          then (Inr (), cleanup ops
                  (send_error (''BLE Proxy not available: '' @ exc_str e @ ''. ''
                               @ ''Install with: poetry install -E ble-proxy'') None h))
          else (Inl e, cleanup ops h)
      | Inr m \<Rightarrow>
          (Inr (), cleanup ops
             (message_loop ops cd frames
                (send_status ops False ''BLE Proxy ready'' (h\<lparr>ble_manager := Some m\<rparr>)))))"

definition new_handler :: "pyexc option list \<Rightarrow> 'm handler" where
  "new_handler results =
     \<lparr>running = False, ble_manager = None, sent = [], send_results = results, handler_logged = []\<rparr>"


subsection \<open>Frames that do not decode\<close>

text \<open>
  The socket takes the next frame. The tag of a command is the first member of
  \<open>BLEMessageType\<close> that the \<open>type\<close> field equals. A frame is invalid when it is
  malformed JSON, or is not a JSON object, or has no known tag, or has a known tag and
  is refused by the message class of that tag.
\<close>

definition socket_accepts :: "'m handler \<Rightarrow> bool" where
  "socket_accepts h = (case send_results h of [] \<Rightarrow> True | r # later \<Rightarrow> r = None)"

definition command_tag :: "pyjson option \<Rightarrow> message_type option" where
  "command_tag msg_type =
     find (\<lambda>t. msg_type = Some (PyStr (BLEMessageType t)))
       [CONNECT, DISCONNECT, WRITE, SUBSCRIBE, UNSUBSCRIBE, DISCOVER]"

fun schema_error :: "codec \<Rightarrow> message_type \<Rightarrow> (string \<times> pyjson) list \<Rightarrow> pyexc option" where
  "schema_error cd CONNECT m = (case new_connect_message cd m of Inl e \<Rightarrow> Some e | Inr v \<Rightarrow> None)"
| "schema_error cd DISCONNECT m = (case new_disconnect_message cd m of Inl e \<Rightarrow> Some e | Inr v \<Rightarrow> None)"
| "schema_error cd WRITE m = (case new_write_message cd m of Inl e \<Rightarrow> Some e | Inr v \<Rightarrow> None)"
| "schema_error cd SUBSCRIBE m = (case new_subscribe_message cd m of Inl e \<Rightarrow> Some e | Inr v \<Rightarrow> None)"
| "schema_error cd UNSUBSCRIBE m = (case new_unsubscribe_message cd m of Inl e \<Rightarrow> Some e | Inr v \<Rightarrow> None)"
| "schema_error cd DISCOVER m = (case new_discover_message cd m of Inl e \<Rightarrow> Some e | Inr v \<Rightarrow> None)"

definition frame_invalid :: "codec \<Rightarrow> string \<Rightarrow> bool" where
  "frame_invalid cd data =
     (case json_loads cd data of
        Inl e \<Rightarrow> exc_cls e = JSONDecodeError
      | Inr (PyDict message) \<Rightarrow>
          (case command_tag (map_of message ''type'') of
             None \<Rightarrow> True
           | Some t \<Rightarrow> (case schema_error cd t message of None \<Rightarrow> False | Some e \<Rightarrow> exc_cls e = ValidationError))
      | Inr other \<Rightarrow> True)"

subsection \<open>An example codec and manager\<close>

definition write_without_fields :: string where
  "write_without_fields =
     ''{'' @ [CHR 0x22] @ ''type'' @ [CHR 0x22] @ '': '' @ [CHR 0x22] @ ''write'' @ [CHR 0x22] @ ''}''"

definition required :: "string \<Rightarrow> string \<Rightarrow> pyexc" where
  "required cls field = Exc ValidationError (''1 validation error for '' @ cls @ '': '' @ field @ '' Field required'')"

definition example_codec :: codec where
  "example_codec =
     \<lparr>json_loads = (\<lambda>s. if s = ''{}'' then Inr (PyDict [])
                          else if s = ''[]'' then Inr (PyList [])
                          else if s = write_without_fields then Inr (PyDict [(''type'', PyStr ''write'')])
                          else Inl (Exc JSONDecodeError ''Expecting value: line 1 column 1 (char 0)'')),
      py_str = (\<lambda>v. case v of Some (PyStr s) \<Rightarrow> s | _ \<Rightarrow> ''None''),
      new_connect_message = (\<lambda>d. Inr (BLEConnectMessage None None)),
      new_disconnect_message = (\<lambda>d. Inr BLEDisconnectMessage),
      new_write_message =
        (\<lambda>d. case (map_of d ''characteristic_uuid'', map_of d ''data'', map_of d ''with_response'') of
                (Some (PyStr cu), Some (PyStr data), Some (PyBool wr)) \<Rightarrow> Inr (BLEWriteMessage cu data wr)
              | _ \<Rightarrow> Inl (required ''BLEWriteMessage'' ''characteristic_uuid'')),
      new_subscribe_message =
        (\<lambda>d. case map_of d ''characteristic_uuid'' of
                Some (PyStr cu) \<Rightarrow> Inr (BLESubscribeMessage cu)
              | _ \<Rightarrow> Inl (required ''BLESubscribeMessage'' ''characteristic_uuid'')),
      new_unsubscribe_message =
        (\<lambda>d. case map_of d ''characteristic_uuid'' of
                Some (PyStr cu) \<Rightarrow> Inr (BLEUnsubscribeMessage cu)
              | _ \<Rightarrow> Inl (required ''BLEUnsubscribeMessage'' ''characteristic_uuid'')),
      new_discover_message = (\<lambda>d. Inr (BLEDiscoverMessage None 10))\<rparr>"

text \<open>
  A manager that is connected to one device and records the payloads it is asked to
  write.
\<close>

definition recording_manager :: "(nat list list) ble_manager_ops" where
  "recording_manager =
     \<lparr>get_ble_manager = Inr [],
      bm_connect = (\<lambda>su da m. (Inr (Device_info ''SFP-Wizard'' ''AA:BB:CC:DD:EE:FF'' []), m)),
      bm_disconnect = (\<lambda>m. (Inr (), m)),
      bm_write = (\<lambda>cu bs wr m. (Inr (), m @ [bs])),
      bm_subscribe = (\<lambda>cu m. (Inr (), m)),
      bm_unsubscribe = (\<lambda>cu m. (Inr (), m)),
      bm_discover_devices = (\<lambda>su t m. (Inr [], m)),
      bm_is_connected = (\<lambda>m. True),
      bm_device_address = (\<lambda>m. Some ''AA:BB:CC:DD:EE:FF'')\<rparr>"

definition ready_handler :: "(nat list list) handler" where
  "ready_handler =
     \<lparr>running = True, ble_manager = Some [], sent = [], send_results = [], handler_logged = []\<rparr>"

subsection \<open>Example sessions\<close>

text \<open>
  Concrete connections and transports on which the theorems below are run.
\<close>

definition example_connection :: active_connection where
  "example_connection =
     \<lparr>mac_address = ''AA:BB:CC:DD:EE:FF'', device_name = Some ''SFP-Wizard'', proxy_name = ''proxy-1'',
      client = 1, service_uuid = ''8e60f02e-f699-4865-b83f-f40501752184'',
      notify_char_uuid = ''dc272a22-43f2-416b-8fa5-63a071542fac'',
      write_char_uuid = ''9280f26c-a56f-43ea-b769-d5d732e1ac67'', notification_callback = Some 7\<rparr>"

definition other_connection :: active_connection where
  "other_connection =
     \<lparr>mac_address = ''11:22:33:44:55:66'', device_name = None, proxy_name = ''proxy-2'',
      client = 2, service_uuid = ''8e60f02e-f699-4865-b83f-f40501752184'',
      notify_char_uuid = ''dc272a22-43f2-416b-8fa5-63a071542fac'',
      write_char_uuid = ''9280f26c-a56f-43ea-b769-d5d732e1ac67'', notification_callback = None\<rparr>"

definition responsive_env :: environment where
  "responsive_env =
     \<lparr>connect_result = (\<lambda>h cl mac. Finishes 2 ()), call_result = (\<lambda>h c. None),
      callback_result = (\<lambda>cb u d. None)\<rparr>"

definition silent_env :: environment where
  "silent_env =
     \<lparr>connect_result = (\<lambda>h cl mac. Pending), call_result = (\<lambda>h c. None),
      callback_result = (\<lambda>cb u d. None)\<rparr>"

definition failing_env :: environment where
  "failing_env =
     \<lparr>connect_result = (\<lambda>h cl mac. Finishes 2 ()),
      call_result = (\<lambda>h c. case c of Bluetooth_device_connect cl mac \<Rightarrow> None
                                | _ \<Rightarrow> Some (Exc (OtherException ''APIConnectionError'') ''link lost'')),
      callback_result = (\<lambda>cb u d. None)\<rparr>"

definition connected_once :: cm_state where
  "connected_once = snd (connect_device default_settings responsive_env ''session-1'' example_connection empty_state)"

definition subscribe_fails_env :: environment where
  "subscribe_fails_env =
     \<lparr>connect_result = (\<lambda>h cl mac. Finishes 2 ()),
      call_result = (\<lambda>h c. case c of
                        Subscribe_bluetooth_le_raw_advertisements cl f \<Rightarrow>
                          Some (Exc (OtherException ''APIConnectionError'') ''link lost'')
                      | _ \<Rightarrow> None),
      callback_result = (\<lambda>cb u d. None)\<rparr>"

section \<open>Properties of the MAC address validation\<close>

lemma match_hex_pair_Some:
  "match_hex_pair s = Some r \<longleftrightarrow> (\<exists>a b. s = a # b # r \<and> is_hex_upper a \<and> is_hex_upper b)"
  by (cases s rule: match_hex_pair.cases) auto

lemma match_hex_pair_colon_Some:
  "match_hex_pair_colon s = Some r \<longleftrightarrow>
     (\<exists>a b. s = a # b # CHR '':'' # r \<and> is_hex_upper a \<and> is_hex_upper b)"
  by (auto simp: match_hex_pair_colon_def match_hex_pair_Some split: option.splits list.splits)

lemma match_groups_Suc:
  "match_groups (Suc n) s = Some r \<longleftrightarrow>
     (\<exists>a b t. s = a # b # CHR '':'' # t \<and> is_hex_upper a \<and> is_hex_upper b \<and> match_groups n t = Some r)"
proof (cases "match_hex_pair_colon s")
  case None
  then have "\<not> (\<exists>a b t. s = a # b # CHR '':'' # t \<and> is_hex_upper a \<and> is_hex_upper b)"
    using match_hex_pair_colon_Some [of s] by auto
  with None show ?thesis by auto
next
  case (Some t)
  then obtain a b where "s = a # b # CHR '':'' # t" "is_hex_upper a" "is_hex_upper b"
    using match_hex_pair_colon_Some [of s t] by auto
  with Some show ?thesis by auto
qed

lemma match_groups_0: "match_groups 0 s = Some r \<longleftrightarrow> s = r"
  by auto

lemma five: "(5::nat) = Suc (Suc (Suc (Suc (Suc 0))))"
  by simp

lemma full_match:
  "(\<exists>t. match_groups 5 v = Some t \<and> match_hex_pair t = Some r) \<longleftrightarrow>
     (\<exists>a1 a2 b1 b2 c1 c2 d1 d2 e1 e2 f1 f2.
        v = a1 # a2 # CHR '':'' # b1 # b2 # CHR '':'' # c1 # c2 # CHR '':'' # d1 # d2 # CHR '':''
              # e1 # e2 # CHR '':'' # f1 # f2 # r \<and>
        is_hex_upper a1 \<and> is_hex_upper a2 \<and> is_hex_upper b1 \<and> is_hex_upper b2 \<and>
        is_hex_upper c1 \<and> is_hex_upper c2 \<and> is_hex_upper d1 \<and> is_hex_upper d2 \<and>
        is_hex_upper e1 \<and> is_hex_upper e2 \<and> is_hex_upper f1 \<and> is_hex_upper f2)"
  apply (simp only: five match_groups_Suc match_groups_0 match_hex_pair_Some)
  apply (rule iffI)
   apply (elim exE conjE)
   apply simp
  apply (elim exE conjE)
  apply simp
  done

lemma upt_17: "[0..<17] = [0, 1, 2, 3, 4, 5, 6, 7, 8, 9, 10, 11, 12, 13, 14, 15, 16]"
  by code_simp

lemma length_17:
  "length v = 17 \<Longrightarrow>
     \<exists>x0 x1 x2 x3 x4 x5 x6 x7 x8 x9 x10 x11 x12 x13 x14 x15 x16.
       v = [x0, x1, x2, x3, x4, x5, x6, x7, x8, x9, x10, x11, x12, x13, x14, x15, x16]"
  by (clarsimp simp: eval_nat_numeral length_Suc_conv)

lemma canonical_explicit:
  "canonical_mac [x0, x1, x2, x3, x4, x5, x6, x7, x8, x9, x10, x11, x12, x13, x14, x15, x16] \<longleftrightarrow>
     is_hex_upper x0 \<and> is_hex_upper x1 \<and> x2 = CHR '':'' \<and> is_hex_upper x3 \<and> is_hex_upper x4 \<and>
     x5 = CHR '':'' \<and> is_hex_upper x6 \<and> is_hex_upper x7 \<and> x8 = CHR '':'' \<and> is_hex_upper x9 \<and>
     is_hex_upper x10 \<and> x11 = CHR '':'' \<and> is_hex_upper x12 \<and> is_hex_upper x13 \<and>
     x14 = CHR '':'' \<and> is_hex_upper x15 \<and> is_hex_upper x16"
  by (simp add: canonical_mac_def upt_17)

lemma canonical_shape: "canonical_mac v \<longleftrightarrow> mac_shape v []"
proof
  assume c: "canonical_mac v"
  then have "length v = 17" by (simp add: canonical_mac_def)
  from length_17 [OF this] obtain x0 x1 x2 x3 x4 x5 x6 x7 x8 x9 x10 x11 x12 x13 x14 x15 x16 where
    v: "v = [x0, x1, x2, x3, x4, x5, x6, x7, x8, x9, x10, x11, x12, x13, x14, x15, x16]"
    by blast
  from c show "mac_shape v []"
    unfolding v canonical_explicit mac_shape_def by simp
next
  assume "mac_shape v []"
  then obtain a1 a2 b1 b2 c1 c2 d1 d2 e1 e2 f1 f2 where
    v: "v = [a1, a2, CHR '':'', b1, b2, CHR '':'', c1, c2, CHR '':'', d1, d2, CHR '':'',
             e1, e2, CHR '':'', f1, f2]"
    and h: "is_hex_upper a1" "is_hex_upper a2" "is_hex_upper b1" "is_hex_upper b2"
        "is_hex_upper c1" "is_hex_upper c2" "is_hex_upper d1" "is_hex_upper d2"
        "is_hex_upper e1" "is_hex_upper e2" "is_hex_upper f1" "is_hex_upper f2"
    unfolding mac_shape_def by blast
  from h show "canonical_mac v"
    unfolding v canonical_explicit by simp
qed

lemma shape_newline: "mac_shape v [CHR 0x0A] \<longleftrightarrow> (\<exists>u. v = u @ [CHR 0x0A] \<and> mac_shape u [])"
proof
  assume "mac_shape v [CHR 0x0A]"
  then obtain a1 a2 b1 b2 c1 c2 d1 d2 e1 e2 f1 f2 where
    v: "v = [a1, a2, CHR '':'', b1, b2, CHR '':'', c1, c2, CHR '':'', d1, d2, CHR '':'',
             e1, e2, CHR '':'', f1, f2] @ [CHR 0x0A]"
    and h: "is_hex_upper a1 \<and> is_hex_upper a2 \<and> is_hex_upper b1 \<and> is_hex_upper b2 \<and>
        is_hex_upper c1 \<and> is_hex_upper c2 \<and> is_hex_upper d1 \<and> is_hex_upper d2 \<and>
        is_hex_upper e1 \<and> is_hex_upper e2 \<and> is_hex_upper f1 \<and> is_hex_upper f2"
    unfolding mac_shape_def by auto
  from h have "mac_shape [a1, a2, CHR '':'', b1, b2, CHR '':'', c1, c2, CHR '':'', d1, d2, CHR '':'',
             e1, e2, CHR '':'', f1, f2] []"
    unfolding mac_shape_def by simp
  with v show "\<exists>u. v = u @ [CHR 0x0A] \<and> mac_shape u []" by blast
next
  assume "\<exists>u. v = u @ [CHR 0x0A] \<and> mac_shape u []"
  then obtain u where v: "v = u @ [CHR 0x0A]" and u: "mac_shape u []" by blast
  from u show "mac_shape v [CHR 0x0A]"
    unfolding v mac_shape_def by (elim exE conjE) simp
qed

lemma mac_regex_match_shape: "mac_regex_match v \<longleftrightarrow> mac_shape v [] \<or> mac_shape v [CHR 0x0A]"
proof -
  have "mac_regex_match v \<longleftrightarrow>
          (\<exists>r. (\<exists>t. match_groups 5 v = Some t \<and> match_hex_pair t = Some r) \<and> at_dollar r)"
    by (auto simp: mac_regex_match_def split: option.splits)
  also have "\<dots> \<longleftrightarrow> (\<exists>r. mac_shape v r \<and> at_dollar r)"
    unfolding full_match mac_shape_def ..
  also have "\<dots> \<longleftrightarrow> mac_shape v [] \<or> mac_shape v [CHR 0x0A]"
    by (auto simp: at_dollar_def)
  finally show ?thesis .
qed

text \<open>
  What the validator accepts among ASCII texts: the normalised text is returned, and it
  is in canonical form or is a canonical address followed by one line feed.
\<close>

lemma validate_mac_address_accepts_exactly:
  assumes "list_all (\<lambda>c. (of_char c :: nat) < 128) v"
  shows "validate_mac_address v = Inr w \<longleftrightarrow>
     w = replace_char (CHR ''-'') (CHR '':'') (upper v) \<and>
     (canonical_mac w \<or> (\<exists>u. w = u @ [CHR 0x0A] \<and> canonical_mac u))"
  by (auto simp: validate_mac_address_def Let_def mac_regex_match_shape shape_newline canonical_shape)

lemma validate_mac_address_normalises:
  "validate_mac_address ''aa-bb-cc-dd-ee-ff'' = Inr ''AA:BB:CC:DD:EE:FF''"
  by code_simp

lemma validate_mac_address_rejects_non_hex:
  "validate_mac_address ''zz:11:22:33:44:55'' =
     Inl (Exc ValueError ''Invalid MAC address format. Expected format: AA:BB:CC:DD:EE:FF'')"
  by code_simp

text \<open>
  Claim C8. The two examples of the claim hold (\<open>validate_mac_address_normalises\<close>,
  \<open>validate_mac_address_rejects_non_hex\<close>). The rule that every
  text that is not six colon-separated pairs of hexadecimal digits after normalisation
  is rejected does not: the pattern ends in \<open>$\<close>, which also matches before a final
  line feed, so a canonical address followed by a line feed is accepted and returned
  with the line feed, though it is not in canonical form.
\<close>

theorem validate_mac_address_accepts_trailing_newline:
  "validate_mac_address (''aa-bb-cc-dd-ee-ff'' @ [CHR 0x0A]) = Inr (''AA:BB:CC:DD:EE:FF'' @ [CHR 0x0A]) \<and>
   \<not> canonical_mac (''AA:BB:CC:DD:EE:FF'' @ [CHR 0x0A]) \<and>
   canonical_mac ''AA:BB:CC:DD:EE:FF''"
  by code_simp

section \<open>Properties of the connection manager\<close>

lemma logger_fields [simp]:
  "connections (logger l m s) = connections s"
  "api_calls (logger l m s) = api_calls s"
  "installed (logger l m s) = installed s"
  "callback_calls (logger l m s) = callback_calls s"
  "logged (logger l m s) = logged s @ [(l, m)]"
  by (simp_all add: logger_def)

lemma call_api_fields:
  "call_api env c s = (r, s') \<Longrightarrow>
     r = call_result env (api_calls s) c \<and> connections s' = connections s \<and>
     api_calls s' = api_calls s @ [c] \<and> installed s' = installed s \<and>
     callback_calls s' = callback_calls s \<and> logged s' = logged s"
  by (auto simp: call_api_def)

lemma disconnect_device_returns: "fst (disconnect_device env client_id s) = Inr ()"
  by (simp add: disconnect_device_def disconnect_try_def call_api_def Let_def
           split: option.splits prod.splits sum.splits)

lemma disconnect_device_connections:
  "connections (snd (disconnect_device env client_id s)) = AList.delete client_id (connections s)"
proof (cases "map_of (connections s) client_id")
  case None
  then have "client_id \<notin> fst ` set (connections s)"
    by (simp add: map_of_eq_None_iff)
  then have "AList.delete client_id (connections s) = connections s"
    by (rule AList.delete_id)
  with None show ?thesis
    by (simp add: disconnect_device_def)
next
  case (Some connection)
  then show ?thesis
    by (simp add: disconnect_device_def disconnect_try_def call_api_def Let_def
          AList.delete_update_same split: option.splits prod.splits sum.splits)
qed

lemma disconnect_device_noop:
  "map_of (connections s) client_id = None \<Longrightarrow>
     disconnect_device env client_id s =
       (Inr (), logger WARNING (''No active connection for client '' @ client_id) s)"
  by (simp add: disconnect_device_def)

lemma disconnect_device_api_calls:
  "api_calls (snd (disconnect_device env client_id s)) =
     (case map_of (connections s) client_id of
        None \<Rightarrow> api_calls s
      | Some connection \<Rightarrow>
          api_calls s @ [Bluetooth_device_disconnect (client connection) (mac_address connection)])"
  by (simp add: disconnect_device_def disconnect_try_def call_api_def Let_def
           split: option.splits prod.splits sum.splits)

lemma disconnect_device_installed:
  "installed (snd (disconnect_device env client_id s)) = installed s"
  by (simp add: disconnect_device_def disconnect_try_def call_api_def Let_def
           split: option.splits prod.splits sum.splits)

lemma entries_for_delete: "length (filter (\<lambda>kv. fst kv = k) (AList.delete k al)) = 0"
  by (induction al) (auto simp: AList.delete_eq)

lemma entries_for_distinct:
  "distinct (map fst al) \<Longrightarrow> length (filter (\<lambda>kv. fst kv = k) al) \<le> 1"
proof (induction al)
  case Nil
  then show ?case by simp
next
  case (Cons p al)
  show ?case
  proof (cases "fst p = k")
    case True
    with Cons.prems have "k \<notin> fst ` set al" by auto
    then have "filter (\<lambda>kv. fst kv = k) al = []"
      by (auto simp: filter_empty_conv)
    with True show ?thesis by simp
  next
    case False
    with Cons show ?thesis by simp
  qed
qed

lemma entries_for_map_of:
  "distinct (map fst al) \<Longrightarrow> map_of al k = Some v \<Longrightarrow> length (filter (\<lambda>kv. fst kv = k) al) = 1"
proof (induction al)
  case Nil
  then show ?case by simp
next
  case (Cons p al)
  show ?case
  proof (cases "fst p = k")
    case True
    with Cons.prems have "k \<notin> fst ` set al" by auto
    then have "filter (\<lambda>kv. fst kv = k) al = []"
      by (auto simp: filter_empty_conv)
    with True show ?thesis by simp
  next
    case False
    with Cons show ?thesis by (cases p) auto
  qed
qed

lemma connect_try_connections:
  "connections (snd (connect_try cfg env client_id c s)) =
     (if fst (connect_try cfg env client_id c s) = Inr () then AList.update client_id c (connections s)
      else connections s)"
  by (simp add: connect_try_def subscribe_notifications_def call_api_def Let_def
           split: option.splits prod.splits sum.splits)

lemma replace_existing_returns: "fst (replace_existing env client_id c s) = Inr ()"
proof (cases "disconnect_device env client_id s")
  case (Pair r s1)
  with disconnect_device_returns [of env client_id s] have "r = Inr ()" by simp
  with Pair show ?thesis by (simp add: replace_existing_def)
qed

lemma replace_existing_connections:
  "connections (snd (replace_existing env client_id c s)) = AList.delete client_id (connections s)"
proof (cases "map_of (connections s) client_id")
  case None
  then have "client_id \<notin> fst ` set (connections s)"
    by (simp add: map_of_eq_None_iff)
  then have "AList.delete client_id (connections s) = connections s"
    by (rule AList.delete_id)
  with None show ?thesis
    by (simp add: replace_existing_def)
next
  case (Some connection)
  obtain r s1 where d: "disconnect_device env client_id s = (r, s1)"
    by (cases "disconnect_device env client_id s")
  with disconnect_device_returns [of env client_id s] have r: "r = Inr ()" by simp
  from d disconnect_device_connections [of env client_id s]
  have "connections s1 = AList.delete client_id (connections s)" by simp
  with Some d r show ?thesis
    by (simp add: replace_existing_def)
qed

lemma connect_device_unfold:
  "connect_device cfg env client_id c s =
     (let s1 = snd (replace_existing env client_id c s) in
      case connect_try cfg env client_id c s1 of
        (Inr v, s2) \<Rightarrow> (Inr v, s2)
      | (Inl e, s2) \<Rightarrow>
          if exc_cls e = TimeoutError
          then (Inl (Exc RuntimeError ''Connection timeout - device may be out of range or busy''),
                logger ERROR (''Timeout connecting to device '' @ mac_address c) s2)
          else (Inl (Exc RuntimeError (''Connection failed: '' @ exc_str e)),
                logger ERROR (''Failed to connect to device '' @ mac_address c @ '': '' @ exc_str e) s2))"
proof (cases "replace_existing env client_id c s")
  case (Pair r s1)
  with replace_existing_returns [of env client_id c s] have "r = Inr ()" by simp
  with Pair show ?thesis by (simp add: connect_device_def)
qed

lemma connect_device_connections:
  "connections (snd (connect_device cfg env client_id c s)) =
     (if fst (connect_device cfg env client_id c s) = Inr ()
      then AList.update client_id c (AList.delete client_id (connections s))
      else AList.delete client_id (connections s))"
proof (cases "connect_try cfg env client_id c (snd (replace_existing env client_id c s))")
  case (Pair r s2)
  with connect_try_connections [of cfg env client_id c "snd (replace_existing env client_id c s)"]
  have "connections s2 =
          (if r = Inr () then AList.update client_id c (AList.delete client_id (connections s))
           else AList.delete client_id (connections s))"
    by (simp add: replace_existing_connections)
  with Pair show ?thesis
    by (cases r) (simp_all add: connect_device_unfold Let_def)
qed

lemma write_characteristic_connections:
  "connections (snd (write_characteristic env client_id u data r s)) = connections s"
  by (simp add: write_characteristic_def call_api_def Let_def split: option.splits prod.splits)

lemma on_notification_call_connections:
  "connections (on_notification_call env h address hdl data s) = connections s"
  by (cases h) (simp add: Let_def split: sum.splits option.splits)

lemma on_notification_call_installed:
  "installed (on_notification_call env h address hdl data s) = installed s"
  by (cases h) (simp add: Let_def split: sum.splits option.splits)

lemma fold_on_notification_connections:
  "connections (fold (\<lambda>h. on_notification_call env h address hdl data) hs s) = connections s"
  by (induction hs arbitrary: s) (simp_all add: on_notification_call_connections)

lemma transport_notifies_connections:
  "connections (transport_notifies env address hdl data s) = connections s"
  by (simp add: transport_notifies_def fold_on_notification_connections)

lemma disconnect_each_returns: "fst (disconnect_each env ks s) = Inr ()"
proof (induction ks arbitrary: s)
  case Nil
  show ?case by simp
next
  case (Cons k ks)
  obtain r s1 where d: "disconnect_device env k s = (r, s1)"
    by (cases "disconnect_device env k s")
  with disconnect_device_returns [of env k s] have "r = Inr ()" by simp
  with d Cons.IH [of s1] show ?case by simp
qed

lemma disconnect_each_connections:
  "connections (snd (disconnect_each env ks s)) = fold AList.delete ks (connections s)"
proof (induction ks arbitrary: s)
  case Nil
  show ?case by simp
next
  case (Cons k ks)
  obtain r s1 where d: "disconnect_device env k s = (r, s1)"
    by (cases "disconnect_device env k s")
  with disconnect_device_returns [of env k s] have r: "r = Inr ()" by simp
  from d disconnect_device_connections [of env k s]
  have "connections s1 = AList.delete k (connections s)" by simp
  with d r Cons.IH [of s1] show ?case by simp
qed

lemma fold_delete_distinct:
  "distinct (map fst al) \<Longrightarrow> distinct (map fst (fold AList.delete ks al))"
  by (induction ks arbitrary: al) (simp_all add: AList.distinct_delete)

lemma fold_delete_keys: "set (map fst (fold AList.delete ks al)) = set (map fst al) - set ks"
  by (induction ks arbitrary: al) (auto simp: AList.delete_eq)

lemma disconnect_all_returns: "fst (disconnect_all env s) = Inr ()"
proof -
  let ?s1 = "logger INFO (''Disconnecting '' @ str_nat (length (connections s)) @ '' active connections...'') s"
  obtain r s2 where d: "disconnect_each env (map fst (connections ?s1)) ?s1 = (r, s2)"
    by (cases "disconnect_each env (map fst (connections ?s1)) ?s1")
  with disconnect_each_returns [of env "map fst (connections ?s1)" ?s1] have "r = Inr ()" by simp
  with d show ?thesis by (simp add: disconnect_all_def Let_def)
qed

lemma disconnect_all_connections: "connections (snd (disconnect_all env s)) = []"
proof -
  let ?s1 = "logger INFO (''Disconnecting '' @ str_nat (length (connections s)) @ '' active connections...'') s"
  obtain r s2 where d: "disconnect_each env (map fst (connections ?s1)) ?s1 = (r, s2)"
    by (cases "disconnect_each env (map fst (connections ?s1)) ?s1")
  with disconnect_each_returns [of env "map fst (connections ?s1)" ?s1] have r: "r = Inr ()" by simp
  from d disconnect_each_connections [of env "map fst (connections ?s1)" ?s1]
  have "connections s2 = fold AList.delete (map fst (connections s)) (connections s)" by simp
  moreover have "set (map fst (fold AList.delete (map fst (connections s)) (connections s))) = {}"
    by (simp only: fold_delete_keys) simp
  ultimately have "connections s2 = []" by simp
  with d r show ?thesis by (simp add: disconnect_all_def Let_def)
qed

lemma run_op_distinct:
  "distinct (map fst (connections s)) \<Longrightarrow> distinct (map fst (connections (run_op cfg env op s)))"
proof (cases op)
  case (Connect_device client_id c)
  assume "distinct (map fst (connections s))"
  then show ?thesis
    by (simp add: Connect_device connect_device_connections AList.distinct_update AList.distinct_delete)
next
  case (Disconnect_device client_id)
  assume "distinct (map fst (connections s))"
  then show ?thesis
    by (simp add: Disconnect_device disconnect_device_connections AList.distinct_delete)
next
  case (Write_characteristic client_id u data r)
  assume "distinct (map fst (connections s))"
  then show ?thesis
    by (simp add: Write_characteristic write_characteristic_connections)
next
  case Disconnect_all
  show ?thesis
    by (simp add: Disconnect_all disconnect_all_connections)
next
  case (Notification address hdl data)
  assume "distinct (map fst (connections s))"
  then show ?thesis
    by (simp add: Notification transport_notifies_connections)
qed

lemma fold_run_op_distinct:
  "distinct (map fst (connections s)) \<Longrightarrow>
     distinct (map fst (connections (fold (run_op cfg env) ops s)))"
  by (induction ops arbitrary: s) (simp_all add: run_op_distinct)

lemma run_ops_distinct: "distinct (map fst (connections (run_ops cfg env ops empty_state)))"
  unfolding run_ops_def by (rule fold_run_op_distinct) (simp add: empty_state_def)

lemma connect_try_api_calls:
  "\<exists>rest. api_calls (snd (connect_try cfg env client_id c s)) =
            api_calls s @ Bluetooth_device_connect (client c) (mac_address c) # rest"
  by (simp add: connect_try_def subscribe_notifications_def call_api_def Let_def
           split: option.splits prod.splits sum.splits)

lemma replace_existing_api_calls:
  "api_calls (snd (replace_existing env client_id c s)) =
     (case map_of (connections s) client_id of
        None \<Rightarrow> api_calls s
      | Some connection \<Rightarrow>
          api_calls s @ [Bluetooth_device_disconnect (client connection) (mac_address connection)])"
proof (cases "map_of (connections s) client_id")
  case None
  then show ?thesis by (simp add: replace_existing_def)
next
  case (Some connection)
  obtain r s1 where d: "disconnect_device env client_id s = (r, s1)"
    by (cases "disconnect_device env client_id s")
  with disconnect_device_returns [of env client_id s] have r: "r = Inr ()" by simp
  from d disconnect_device_api_calls [of env client_id s] Some
  have "api_calls s1 = api_calls s @ [Bluetooth_device_disconnect (client connection) (mac_address connection)]"
    by simp
  with Some d r show ?thesis by (simp add: replace_existing_def)
qed

lemma connect_device_api_calls:
  "\<exists>rest. api_calls (snd (connect_device cfg env client_id c s)) =
            api_calls (snd (replace_existing env client_id c s))
              @ Bluetooth_device_connect (client c) (mac_address c) # rest"
proof -
  let ?s1 = "snd (replace_existing env client_id c s)"
  obtain r s2 where t: "connect_try cfg env client_id c ?s1 = (r, s2)"
    by (cases "connect_try cfg env client_id c ?s1")
  with connect_try_api_calls [of cfg env client_id c ?s1]
  obtain rest where "api_calls s2 = api_calls ?s1 @ Bluetooth_device_connect (client c) (mac_address c) # rest"
    by auto
  with t show ?thesis
    by (cases r) (simp_all add: connect_device_unfold Let_def)
qed

lemma update_fresh: "k \<notin> fst ` set al \<Longrightarrow> AList.update k v al = al @ [(k, v)]"
  by (induction al) auto

lemma entries_for_update_delete:
  "length (filter (\<lambda>kv. fst kv = k) (AList.update k v (AList.delete k al))) = 1"
proof -
  have "k \<notin> fst ` set (AList.delete k al)"
    by (auto simp: AList.delete_eq)
  then have "AList.update k v (AList.delete k al) = AList.delete k al @ [(k, v)]"
    by (rule update_fresh)
  then show ?thesis
    by (simp add: entries_for_delete)
qed

lemma entries_for_connect_device:
  "entries_for client_id (snd (connect_device cfg env client_id c s)) =
     (if fst (connect_device cfg env client_id c s) = Inr () then 1 else 0)"
  by (simp add: entries_for_def connect_device_connections entries_for_update_delete entries_for_delete)

text \<open>
  Claim C1. Whatever registry operations have run since the manager was created, and
  whatever the transport answered, the registry holds at most one entry for a session
  identifier. A connect for a session that has a connection first calls the transport
  disconnect of the old connection and only then the transport connect of the new one.
  After any connect the session has at most one entry; after a connect that succeeded
  it has exactly one, the new connection. (Two successive connects are the case where
  \<open>s\<close> is the state the first one left.)
\<close>

theorem registry_at_most_one_connection:
  "entries_for k (run_ops cfg env ops empty_state) \<le> 1 \<and>
   (map_of (connections s) client_id = Some old \<longrightarrow>
      (\<exists>rest. api_calls (snd (connect_device cfg env client_id c s)) =
                api_calls s @ Bluetooth_device_disconnect (client old) (mac_address old)
                  # Bluetooth_device_connect (client c) (mac_address c) # rest)) \<and>
   entries_for client_id (snd (connect_device cfg env client_id c s)) \<le> 1 \<and>
   (fst (connect_device cfg env client_id c s) = Inr () \<longrightarrow>
      entries_for client_id (snd (connect_device cfg env client_id c s)) = 1 \<and>
      map_of (connections (snd (connect_device cfg env client_id c s))) client_id = Some c)"
proof (intro conjI impI)
  show "entries_for k (run_ops cfg env ops empty_state) \<le> 1"
    unfolding entries_for_def by (rule entries_for_distinct) (rule run_ops_distinct)
next
  assume "map_of (connections s) client_id = Some old"
  with connect_device_api_calls [of cfg env client_id c s]
  show "\<exists>rest. api_calls (snd (connect_device cfg env client_id c s)) =
                api_calls s @ Bluetooth_device_disconnect (client old) (mac_address old)
                  # Bluetooth_device_connect (client c) (mac_address c) # rest"
    by (simp add: replace_existing_api_calls)
next
  show "entries_for client_id (snd (connect_device cfg env client_id c s)) \<le> 1"
    by (simp add: entries_for_connect_device)
next
  assume ok: "fst (connect_device cfg env client_id c s) = Inr ()"
  then show "entries_for client_id (snd (connect_device cfg env client_id c s)) = 1"
    by (simp add: entries_for_connect_device)
next
  assume ok: "fst (connect_device cfg env client_id c s) = Inr ()"
  then show "map_of (connections (snd (connect_device cfg env client_id c s))) client_id = Some c"
    by (simp add: connect_device_connections AList.update_conv')
qed

theorem registry_at_most_one_connection_witness:
  "map_of (connections connected_once) ''session-1'' = Some example_connection \<and>
   fst (connect_device default_settings responsive_env ''session-1'' other_connection connected_once) = Inr () \<and>
   entries_for ''session-1''
     (snd (connect_device default_settings responsive_env ''session-1'' other_connection connected_once)) = 1 \<and>
   map_of (connections
     (snd (connect_device default_settings responsive_env ''session-1'' other_connection connected_once)))
     ''session-1'' = Some other_connection"
proof -
  have h1: "map_of (connections connected_once) ''session-1'' = Some example_connection"
    by code_simp
  have h2: "fst (connect_device default_settings responsive_env ''session-1'' other_connection connected_once) = Inr ()"
    by code_simp
  from registry_at_most_one_connection
         [of "''session-1''" default_settings responsive_env "[]" connected_once "''session-1''"
             example_connection other_connection] h1 h2
  show ?thesis by blast
qed

text \<open>
  Claim C4. A write for a session with no connection raises
  \<open>ValueError("No active connection - connect first")\<close>, the NotConnected of the
  specification, and leaves the whole state as it was: no transport call is recorded, so
  the transport write was not invoked.
\<close>

theorem write_without_connection_is_refused:
  assumes "map_of (connections s) client_id = None"
  shows "write_characteristic env client_id characteristic_uuid data with_response s =
           (Inl (Exc ValueError ''No active connection - connect first''), s)"
  using assms by (simp add: write_characteristic_def)

theorem write_without_connection_is_refused_witness:
  "map_of (connections empty_state) ''session-1'' = None \<and>
   write_characteristic responsive_env ''session-1'' ''9280f26c-a56f-43ea-b769-d5d732e1ac67'' [1, 2, 3] True empty_state =
     (Inl (Exc ValueError ''No active connection - connect first''), empty_state)"
proof -
  have h: "map_of (connections empty_state) ''session-1'' = None"
    by (simp add: empty_state_def)
  from write_without_connection_is_refused [OF h] h show ?thesis by simp
qed

text \<open>
  Claim C6. \<open>disconnect_device\<close> never raises, and the registry has no entry for the
  session afterwards. With no connection it changes nothing but the log (one warning).
  When the transport disconnect raises, the error is logged as a warning, after the
  message that announces the disconnect, and the entry is removed all the same.
\<close>

theorem disconnect_leaves_no_entry:
  "fst (disconnect_device env client_id s) = Inr () \<and>
   map_of (connections (snd (disconnect_device env client_id s))) client_id = None \<and>
   entries_for client_id (snd (disconnect_device env client_id s)) = 0 \<and>
   (map_of (connections s) client_id = None \<longrightarrow>
      snd (disconnect_device env client_id s) =
        logger WARNING (''No active connection for client '' @ client_id) s) \<and>
   (\<forall>connection e.
      map_of (connections s) client_id = Some connection \<and>
      call_result env (api_calls s)
        (Bluetooth_device_disconnect (client connection) (mac_address connection)) = Some e \<longrightarrow>
      logged (snd (disconnect_device env client_id s)) =
        logged s @ [(INFO, ''Disconnecting device '' @ mac_address connection @ '' for client '' @ client_id),
                    (WARNING, ''Error disconnecting device: '' @ exc_str e)])"
proof (intro conjI impI allI)
  show "fst (disconnect_device env client_id s) = Inr ()"
    by (rule disconnect_device_returns)
  show "map_of (connections (snd (disconnect_device env client_id s))) client_id = None"
    by (simp add: disconnect_device_connections AList.delete_conv')
  show "entries_for client_id (snd (disconnect_device env client_id s)) = 0"
    by (simp add: entries_for_def disconnect_device_connections entries_for_delete)
next
  assume "map_of (connections s) client_id = None"
  then show "snd (disconnect_device env client_id s) =
        logger WARNING (''No active connection for client '' @ client_id) s"
    by (simp add: disconnect_device_noop)
next
  fix connection e
  assume "map_of (connections s) client_id = Some connection \<and>
      call_result env (api_calls s)
        (Bluetooth_device_disconnect (client connection) (mac_address connection)) = Some e"
  then show "logged (snd (disconnect_device env client_id s)) =
        logged s @ [(INFO, ''Disconnecting device '' @ mac_address connection @ '' for client '' @ client_id),
                    (WARNING, ''Error disconnecting device: '' @ exc_str e)]"
    by (simp add: disconnect_device_def disconnect_try_def call_api_def Let_def
           split: option.splits prod.splits sum.splits)
qed

theorem disconnect_leaves_no_entry_witness:
  "map_of (connections connected_once) ''session-1'' = Some example_connection \<and>
   call_result failing_env (api_calls connected_once)
     (Bluetooth_device_disconnect (client example_connection) (mac_address example_connection)) =
     Some (Exc (OtherException ''APIConnectionError'') ''link lost'') \<and>
   fst (disconnect_device failing_env ''session-1'' connected_once) = Inr () \<and>
   map_of (connections (snd (disconnect_device failing_env ''session-1'' connected_once))) ''session-1'' = None \<and>
   map_of (connections empty_state) ''session-1'' = None \<and>
   snd (disconnect_device failing_env ''session-1'' empty_state) =
     logger WARNING (''No active connection for client '' @ ''session-1'') empty_state"
proof -
  have h1: "map_of (connections connected_once) ''session-1'' = Some example_connection"
    by code_simp
  have h2: "call_result failing_env (api_calls connected_once)
     (Bluetooth_device_disconnect (client example_connection) (mac_address example_connection)) =
     Some (Exc (OtherException ''APIConnectionError'') ''link lost'')"
    by (simp add: failing_env_def)
  have h3: "map_of (connections empty_state) ''session-1'' = None"
    by (simp add: empty_state_def)
  from disconnect_leaves_no_entry [of failing_env "''session-1''" connected_once]
       disconnect_leaves_no_entry [of failing_env "''session-1''" empty_state] h1 h2 h3
  show ?thesis by blast
qed


lemma wait_for_timeout:
  "\<not> completes_within timeout aw \<Longrightarrow> wait_for timeout aw = Inl (Exc TimeoutError [])"
  by (simp add: wait_for_def)

lemma connect_try_timeout:
  assumes "\<not> completes_within (esphome_connection_timeout cfg)
              (connect_result env (api_calls s) (client c) (mac_address c))"
  shows "connect_try cfg env client_id c s =
           (Inl (Exc TimeoutError []),
            s\<lparr>api_calls := api_calls s @ [Bluetooth_device_connect (client c) (mac_address c)]\<rparr>)"
  using assms by (simp add: connect_try_def Let_def wait_for_timeout)

text \<open>
  Claim C5, as stated, fails. The session has a connection, and the connect of another
  device for it times out: the timeout error is raised, and the registry, which held the
  entry of the session before the call, is empty after it. The registry state is not
  unchanged on the error path: lines 82 and 83 tear the old connection down before the
  \<open>try\<close>, and nothing restores it.
\<close>

theorem connect_timeout_removes_existing_connection:
  "\<not> completes_within (esphome_connection_timeout default_settings)
       (connect_result silent_env
          (api_calls (snd (replace_existing silent_env ''session-1'' other_connection connected_once)))
          (client other_connection) (mac_address other_connection)) \<and>
   fst (connect_device default_settings silent_env ''session-1'' other_connection connected_once) =
     Inl (Exc RuntimeError ''Connection timeout - device may be out of range or busy'') \<and>
   connections connected_once = [(''session-1'', example_connection)] \<and>
   connections (snd (connect_device default_settings silent_env ''session-1'' other_connection connected_once)) = [] \<and>
   connections (snd (connect_device default_settings silent_env ''session-1'' other_connection connected_once)) \<noteq>
     connections connected_once"
  by code_simp

text \<open>
  Claim C5, amended. When the transport does not complete the device connect within
  \<open>esphome_connection_timeout\<close>, \<open>connect_device\<close> raises the timeout error (the
  ConnectionTimeout of the specification) and the session has no entry afterwards: the
  registry is the registry before the call without the entry of the session. So it is
  unchanged when the session had no connection, and the entries of other sessions are
  unchanged in every case.
\<close>

theorem connect_timeout_stores_nothing:
  assumes "\<not> completes_within (esphome_connection_timeout cfg)
              (connect_result env (api_calls (snd (replace_existing env client_id c s)))
                 (client c) (mac_address c))"
  shows "fst (connect_device cfg env client_id c s) =
           Inl (Exc RuntimeError ''Connection timeout - device may be out of range or busy'') \<and>
         map_of (connections (snd (connect_device cfg env client_id c s))) client_id = None \<and>
         connections (snd (connect_device cfg env client_id c s)) =
           AList.delete client_id (connections s) \<and>
         (map_of (connections s) client_id = None \<longrightarrow>
            connections (snd (connect_device cfg env client_id c s)) = connections s) \<and>
         (\<forall>k. k \<noteq> client_id \<longrightarrow>
            map_of (connections (snd (connect_device cfg env client_id c s))) k = map_of (connections s) k)"
proof -
  let ?s1 = "snd (replace_existing env client_id c s)"
  from assms have t: "connect_try cfg env client_id c ?s1 =
      (Inl (Exc TimeoutError []),
       ?s1\<lparr>api_calls := api_calls ?s1 @ [Bluetooth_device_connect (client c) (mac_address c)]\<rparr>)"
    by (rule connect_try_timeout)
  then have r: "fst (connect_device cfg env client_id c s) =
           Inl (Exc RuntimeError ''Connection timeout - device may be out of range or busy'')"
    by (simp add: connect_device_unfold Let_def)
  from t have c: "connections (snd (connect_device cfg env client_id c s)) = connections ?s1"
    by (simp add: connect_device_unfold Let_def)
  have d: "connections ?s1 = AList.delete client_id (connections s)"
    by (rule replace_existing_connections)
  have n: "map_of (connections s) client_id = None \<longrightarrow> AList.delete client_id (connections s) = connections s"
    by (auto intro!: AList.delete_id simp: map_of_eq_None_iff)
  from r c d n show ?thesis
    by (simp add: AList.delete_conv')
qed

theorem connect_timeout_stores_nothing_witness:
  "\<not> completes_within (esphome_connection_timeout default_settings)
       (connect_result silent_env
          (api_calls (snd (replace_existing silent_env ''session-1'' other_connection connected_once)))
          (client other_connection) (mac_address other_connection)) \<and>
   fst (connect_device default_settings silent_env ''session-1'' other_connection connected_once) =
     Inl (Exc RuntimeError ''Connection timeout - device may be out of range or busy'') \<and>
   map_of (connections (snd (connect_device default_settings silent_env ''session-1'' other_connection connected_once)))
     ''session-1'' = None"
proof -
  have h: "\<not> completes_within (esphome_connection_timeout default_settings)
       (connect_result silent_env
          (api_calls (snd (replace_existing silent_env ''session-1'' other_connection connected_once)))
          (client other_connection) (mac_address other_connection))"
    by (simp add: silent_env_def completes_within_def)
  from connect_timeout_stores_nothing [OF h] h show ?thesis
    by blast
qed


text \<open>
  Claim C7, as stated, fails. The device connect succeeds, the notification
  subscription raises: \<open>connect_device\<close> raises, and the transport calls it made are
  the connect and the subscribe. No transport disconnect follows for the device link
  that is up.
\<close>

theorem failed_subscription_leaves_link_up:
  "connect_result subscribe_fails_env [] (client example_connection) (mac_address example_connection) = Finishes 2 () \<and>
   fst (connect_device default_settings subscribe_fails_env ''session-1'' example_connection empty_state) =
     Inl (Exc RuntimeError ''Connection failed: Subscription failed: link lost'') \<and>
   api_calls (snd (connect_device default_settings subscribe_fails_env ''session-1'' example_connection empty_state)) =
     [Bluetooth_device_connect 1 ''AA:BB:CC:DD:EE:FF'',
      Subscribe_bluetooth_le_raw_advertisements 1
        (On_notification ''AA:BB:CC:DD:EE:FF'' ''dc272a22-43f2-416b-8fa5-63a071542fac'' 7)] \<and>
   Bluetooth_device_disconnect 1 ''AA:BB:CC:DD:EE:FF'' \<notin>
     set (api_calls (snd (connect_device default_settings subscribe_fails_env ''session-1'' example_connection empty_state)))"
  by code_simp

text \<open>
  Claim C7, amended. A connect that fails after the device connect has succeeded fails
  in the notification subscription: the subscribe call, made right after the connect
  call, raised some \<open>e\<close>. \<open>connect_device\<close> raises
  \<open>RuntimeError("Connection failed: Subscription failed: " + str(e))\<close>, stores no
  connection for the session and leaves the entries of the other sessions alone.
\<close>

theorem failed_connect_after_link_stores_nothing:
  assumes "wait_for (esphome_connection_timeout cfg)
             (connect_result env (api_calls (snd (replace_existing env client_id c s)))
                (client c) (mac_address c)) = Inr ()"
      and "fst (connect_device cfg env client_id c s) \<noteq> Inr ()"
  shows "\<exists>cb e.
           notification_callback c = Some cb \<and>
           call_result env
             (api_calls (snd (replace_existing env client_id c s))
                @ [Bluetooth_device_connect (client c) (mac_address c)])
             (Subscribe_bluetooth_le_raw_advertisements (client c)
                (On_notification (mac_address c) (notify_char_uuid c) cb)) = Some e \<and>
           fst (connect_device cfg env client_id c s) =
             Inl (Exc RuntimeError (''Connection failed: Subscription failed: '' @ exc_str e)) \<and>
           map_of (connections (snd (connect_device cfg env client_id c s))) client_id = None \<and>
           (\<forall>k. k \<noteq> client_id \<longrightarrow>
              map_of (connections (snd (connect_device cfg env client_id c s))) k = map_of (connections s) k)"
proof -
  let ?s1 = "snd (replace_existing env client_id c s)"
  obtain r s2 where t: "connect_try cfg env client_id c ?s1 = (r, s2)"
    by (cases "connect_try cfg env client_id c ?s1")
  from assms(2) t have "r \<noteq> Inr ()"
    by (cases r) (auto simp add: connect_device_unfold Let_def)
  then obtain e0 where r: "r = Inl e0" by (cases r) auto
  from t r assms(1) obtain cb e where
    cb: "notification_callback c = Some cb"
    and ce: "call_result env
             (api_calls ?s1 @ [Bluetooth_device_connect (client c) (mac_address c)])
             (Subscribe_bluetooth_le_raw_advertisements (client c)
                (On_notification (mac_address c) (notify_char_uuid c) cb)) = Some e"
    and e0: "e0 = Exc RuntimeError (''Subscription failed: '' @ exc_str e)"
    by (auto simp: connect_try_def subscribe_notifications_def call_api_def Let_def
             split: option.splits prod.splits sum.splits)
  from t r e0 have res: "fst (connect_device cfg env client_id c s) =
             Inl (Exc RuntimeError (''Connection failed: Subscription failed: '' @ exc_str e))"
    by (simp add: connect_device_unfold Let_def)
  then have "connections (snd (connect_device cfg env client_id c s)) = AList.delete client_id (connections s)"
    by (simp add: connect_device_connections)
  with cb ce res show ?thesis
    by (auto simp: AList.delete_conv')
qed

theorem failed_connect_after_link_stores_nothing_witness:
  "wait_for (esphome_connection_timeout default_settings)
     (connect_result subscribe_fails_env
        (api_calls (snd (replace_existing subscribe_fails_env ''session-1'' example_connection connected_once)))
        (client example_connection) (mac_address example_connection)) = Inr () \<and>
   fst (connect_device default_settings subscribe_fails_env ''session-1'' example_connection connected_once) \<noteq> Inr () \<and>
   map_of (connections
     (snd (connect_device default_settings subscribe_fails_env ''session-1'' example_connection connected_once)))
     ''session-1'' = None"
proof -
  have h1: "wait_for (esphome_connection_timeout default_settings)
     (connect_result subscribe_fails_env
        (api_calls (snd (replace_existing subscribe_fails_env ''session-1'' example_connection connected_once)))
        (client example_connection) (mac_address example_connection)) = Inr ()"
    by (simp add: subscribe_fails_env_def wait_for_def completes_within_def default_settings_def)
  have h2: "fst (connect_device default_settings subscribe_fails_env ''session-1'' example_connection connected_once) \<noteq> Inr ()"
    by code_simp
  from failed_connect_after_link_stores_nothing [OF h1 h2] h1 h2 show ?thesis
    by blast
qed

text \<open>
  Claim C2. The only unsubscribe of the manager is the one in \<open>disconnect_device\<close>
  (lines 138 to 141), which clears the \<open>notification_callback\<close> field. The handler
  given to the transport calls the captured \<open>callback\<close>, not the field, and stays
  installed: after connect and disconnect the registry is empty and nothing was
  forwarded, and a notification that arrives then is still forwarded to the callback of
  the session.
\<close>


theorem notification_after_unsubscribe_is_forwarded:
  "connections (run_ops default_settings responsive_env
      [Connect_device ''session-1'' example_connection, Disconnect_device ''session-1'']
      empty_state) = [] \<and>
   callback_calls (run_ops default_settings responsive_env
      [Connect_device ''session-1'' example_connection, Disconnect_device ''session-1'']
      empty_state) = [] \<and>
   callback_calls (run_ops default_settings responsive_env
      [Connect_device ''session-1'' example_connection, Disconnect_device ''session-1'',
       Notification ''AA:BB:CC:DD:EE:FF'' 0 (Bytes [1, 2, 3])]
      empty_state) = [(7, ''dc272a22-43f2-416b-8fa5-63a071542fac'', [1, 2, 3])]"
  by code_simp

subsection \<open>Further properties of the connection manager\<close>

text \<open>
  \<open>disconnect_all\<close> never raises and leaves the registry empty.
\<close>

theorem disconnect_all_empties_registry:
  "fst (disconnect_all env s) = Inr () \<and> connections (snd (disconnect_all env s)) = []"
  by (simp add: disconnect_all_returns disconnect_all_connections)

text \<open>
  A write for a session with a connection makes one transport call, the GATT write to
  the address of the connection with handle 0, the data and the response flag as given;
  a transport failure is raised as \<open>RuntimeError("Write failed: ...")\<close>; the registry is
  left as it was in both cases.
\<close>

theorem write_is_delegated_to_transport:
  assumes "map_of (connections s) client_id = Some connection"
  shows "api_calls (snd (write_characteristic env client_id characteristic_uuid data with_response s)) =
           api_calls s @ [Bluetooth_gatt_write (client connection) (mac_address connection) 0 data with_response] \<and>
         connections (snd (write_characteristic env client_id characteristic_uuid data with_response s)) =
           connections s \<and>
         fst (write_characteristic env client_id characteristic_uuid data with_response s) =
           (case call_result env (api_calls s)
                   (Bluetooth_gatt_write (client connection) (mac_address connection) 0 data with_response) of
              None \<Rightarrow> Inr ()
            | Some e \<Rightarrow> Inl (Exc RuntimeError (''Write failed: '' @ exc_str e)))"
  using assms
  by (simp add: write_characteristic_def call_api_def Let_def split: option.splits)

theorem write_is_delegated_to_transport_witness:
  "map_of (connections connected_once) ''session-1'' = Some example_connection \<and>
   api_calls (snd (write_characteristic failing_env ''session-1'' ''9280f26c-a56f-43ea-b769-d5d732e1ac67''
                     [1, 2, 3] True connected_once)) =
     api_calls connected_once @ [Bluetooth_gatt_write (client example_connection) (mac_address example_connection)
                                   0 [1, 2, 3] True] \<and>
   connections (snd (write_characteristic failing_env ''session-1'' ''9280f26c-a56f-43ea-b769-d5d732e1ac67''
                     [1, 2, 3] True connected_once)) = connections connected_once"
proof -
  have h: "map_of (connections connected_once) ''session-1'' = Some example_connection"
    by code_simp
  from write_is_delegated_to_transport [OF h, of failing_env] h show ?thesis
    by blast
qed

text \<open>
  The handler installed by \<open>_subscribe_notifications\<close> ignores what comes from another
  address.
\<close>

theorem notification_from_other_device_is_ignored:
  assumes "upper address \<noteq> upper mac"
  shows "on_notification_call env (On_notification mac characteristic_uuid cb) address hdl data s = s"
  using assms by simp

theorem notification_from_other_device_is_ignored_witness:
  "upper ''11:22:33:44:55:66'' \<noteq> upper ''aa:bb:cc:dd:ee:ff'' \<and>
   on_notification_call responsive_env (On_notification ''aa:bb:cc:dd:ee:ff'' ''X'' 7)
     ''11:22:33:44:55:66'' 0 (Bytes [1]) empty_state = empty_state"
proof -
  have h: "upper ''11:22:33:44:55:66'' \<noteq> upper ''aa:bb:cc:dd:ee:ff''"
    by code_simp
  from notification_from_other_device_is_ignored [OF h] h show ?thesis
    by blast
qed

section \<open>Properties of base64\<close>

lemma b64_alphabet_distinct: "distinct b64_alphabet"
  by (simp add: b64_alphabet_def)

lemma b64_alphabet_length: "length b64_alphabet = 64"
  by (simp add: b64_alphabet_def)

lemma index_of_nth: "distinct xs \<Longrightarrow> n < length xs \<Longrightarrow> index_of (xs ! n) xs = Some n"
proof (induction xs arbitrary: n)
  case Nil
  then show ?case by simp
next
  case (Cons x xs)
  show ?case
  proof (cases n)
    case 0
    then show ?thesis by simp
  next
    case (Suc k)
    with Cons.prems have "k < length xs" and "xs ! k \<in> set xs" and "x \<notin> set xs" by auto
    then have "xs ! k \<noteq> x" by auto
    with Suc Cons.IH [of k] Cons.prems \<open>k < length xs\<close> show ?thesis by simp
  qed
qed

lemma b64_value_nth: "n < 64 \<Longrightarrow> b64_value (b64_alphabet ! n) = Some n"
  unfolding b64_value_def
  by (rule index_of_nth) (simp_all add: b64_alphabet_distinct b64_alphabet_length)

lemma b64_alphabet_not_pad: "n < 64 \<Longrightarrow> b64_alphabet ! n \<noteq> CHR ''=''"
proof -
  assume "n < 64"
  then have "b64_alphabet ! n \<in> set b64_alphabet"
    by (simp add: b64_alphabet_length)
  moreover have "CHR ''='' \<notin> set b64_alphabet"
    by (simp add: b64_alphabet_def)
  ultimately show ?thesis by auto
qed

lemma b64_alphabet_ascii: "n < 64 \<Longrightarrow> (of_char (b64_alphabet ! n) :: nat) < 128"
proof -
  assume "n < 64"
  then have "b64_alphabet ! n \<in> set b64_alphabet"
    by (simp add: b64_alphabet_length)
  moreover have "list_all (\<lambda>c. (of_char c :: nat) < 128) b64_alphabet"
    by (simp add: b64_alphabet_def)
  ultimately show ?thesis by (simp add: list_all_iff)
qed

lemma a2b_step:
  assumes "v < 64"
  shows "a2b_base64 (b64_alphabet ! v # cs) quad_pos leftchar pads out =
           (if quad_pos = 0 then a2b_base64 cs 1 v 0 out
            else if quad_pos = 1
              then a2b_base64 cs 2 (v mod 16) 0 (out @ [(leftchar * 4 + v div 16) mod 256])
            else if quad_pos = 2
              then a2b_base64 cs 3 (v mod 4) 0 (out @ [(leftchar * 16 + v div 4) mod 256])
            else a2b_base64 cs 0 0 0 (out @ [(leftchar * 64 + v) mod 256]))"
  using assms by (simp add: b64_value_nth b64_alphabet_not_pad)

lemma sextets:
  fixes a b c :: nat
  assumes "a < 256" "b < 256" "c < 256"
  shows "a div 4 < 64" "a mod 4 * 16 + b div 16 < 64" "b mod 16 * 4 + c div 64 < 64" "c mod 64 < 64"
        "a mod 4 * 16 < 64" "b mod 16 * 4 < 64"
proof -
  from assms have d: "b div 16 < 16" "c div 64 < 4" by simp_all
  have m: "a mod 4 < 4" "b mod 16 < 16" by simp_all
  from assms show "a div 4 < 64" by simp
  from d m show "a mod 4 * 16 + b div 16 < 64" by linarith
  from d m show "b mod 16 * 4 + c div 64 < 64" by linarith
  show "c mod 64 < 64" by simp
  from m show "a mod 4 * 16 < 64" by linarith
  from m show "b mod 16 * 4 < 64" by linarith
qed

lemma octets:
  fixes a b c :: nat
  assumes "a < 256" "b < 256" "c < 256"
  shows "(a div 4 * 4 + (a mod 4 * 16 + b div 16) div 16) mod 256 = a"
        "(a mod 4 * 16 + b div 16) mod 16 = b div 16"
        "(b div 16 * 16 + (b mod 16 * 4 + c div 64) div 4) mod 256 = b"
        "(b mod 16 * 4 + c div 64) mod 4 = c div 64"
        "(c div 64 * 64 + c mod 64) mod 256 = c"
        "(a div 4 * 4 + a mod 4 * 16 div 16) mod 256 = a"
        "(a mod 4 * 16) mod 16 = 0"
        "(b div 16 * 16 + b mod 16 * 4 div 4) mod 256 = b"
  using assms by simp_all

lemma a2b_pad:
  "a2b_base64 (CHR ''='' # cs) quad_pos leftchar pads out =
     (if 2 \<le> quad_pos \<and> 4 \<le> quad_pos + (pads + 1) then Inr out
      else a2b_base64 cs quad_pos leftchar (if 2 \<le> quad_pos then pads + 1 else pads) out)"
  by simp

lemma a2b_two:
  assumes "w < 64" "x < 64"
  shows "a2b_base64 (b64_alphabet ! w # b64_alphabet ! x # cs) 0 leftchar 0 out =
           a2b_base64 cs 2 (x mod 16) 0 (out @ [(w * 4 + x div 16) mod 256])"
  by (simp only: a2b_step [OF assms(1)] a2b_step [OF assms(2)]) simp

lemma a2b_third:
  assumes "y < 64"
  shows "a2b_base64 (b64_alphabet ! y # cs) 2 l 0 out =
           a2b_base64 cs 3 (y mod 4) 0 (out @ [(l * 16 + y div 4) mod 256])"
  by (simp only: a2b_step [OF assms]) simp

lemma a2b_fourth:
  assumes "z < 64"
  shows "a2b_base64 (b64_alphabet ! z # cs) 3 l 0 out =
           a2b_base64 cs 0 0 0 (out @ [(l * 64 + z) mod 256])"
  by (simp only: a2b_step [OF assms]) simp

lemma a2b_pad_pad: "a2b_base64 (CHR ''='' # CHR ''='' # cs) 2 l 0 out = Inr out"
  by (simp only: a2b_pad) simp

lemma a2b_pad_end: "a2b_base64 (CHR ''='' # cs) 3 l 0 out = Inr out"
  by (simp only: a2b_pad) simp

lemma a2b_b64encode:
  "list_all (\<lambda>b. b < 256) bs \<Longrightarrow> a2b_base64 (b64encode bs) 0 leftchar 0 out = Inr (out @ bs)"
proof (induction bs arbitrary: leftchar out rule: b64encode.induct)
  case 1
  show ?case by simp
next
  case (2 a)
  then have a: "a < 256" by simp
  have "a2b_base64 (b64encode [a]) 0 leftchar 0 out =
          a2b_base64 [CHR ''='', CHR ''=''] 2 ((a mod 4 * 16) mod 16) 0
            (out @ [(a div 4 * 4 + a mod 4 * 16 div 16) mod 256])"
    by (simp only: b64encode.simps a2b_two [OF sextets(1,5) [OF a a a]])
  also have "\<dots> = Inr (out @ [(a div 4 * 4 + a mod 4 * 16 div 16) mod 256])"
    by (rule a2b_pad_pad)
  finally show ?case
    by (simp only: octets(6) [OF a a a])
next
  case (3 a b)
  then have a: "a < 256" and b: "b < 256" by simp_all
  have "a2b_base64 (b64encode [a, b]) 0 leftchar 0 out =
          a2b_base64 [b64_alphabet ! (b mod 16 * 4), CHR ''=''] 2 ((a mod 4 * 16 + b div 16) mod 16) 0
            (out @ [(a div 4 * 4 + (a mod 4 * 16 + b div 16) div 16) mod 256])"
    by (simp only: b64encode.simps a2b_two [OF sextets(1,2) [OF a b b]])
  also have "\<dots> = a2b_base64 [CHR ''=''] 3 (b mod 16 * 4 mod 4) 0 ((out @ [a]) @ [b])"
    by (simp only: a2b_third [OF sextets(6) [OF a b b]] octets(1,2,8) [OF a b b])
  also have "\<dots> = Inr ((out @ [a]) @ [b])"
    by (rule a2b_pad_end)
  finally show ?case by simp
next
  case (4 a b c rest)
  then have a: "a < 256" and b: "b < 256" and c: "c < 256" and r: "list_all (\<lambda>b. b < 256) rest"
    by simp_all
  have "a2b_base64 (b64encode (a # b # c # rest)) 0 leftchar 0 out =
          a2b_base64 (b64_alphabet ! (b mod 16 * 4 + c div 64) # b64_alphabet ! (c mod 64) # b64encode rest)
            2 ((a mod 4 * 16 + b div 16) mod 16) 0
            (out @ [(a div 4 * 4 + (a mod 4 * 16 + b div 16) div 16) mod 256])"
    by (simp only: b64encode.simps append_Cons append_Nil a2b_two [OF sextets(1,2) [OF a b c]])
  also have "\<dots> = a2b_base64 (b64_alphabet ! (c mod 64) # b64encode rest) 3 (c div 64) 0 ((out @ [a]) @ [b])"
    by (simp only: a2b_third [OF sextets(3) [OF a b c]] octets(1,2,3,4) [OF a b c])
  also have "\<dots> = a2b_base64 (b64encode rest) 0 0 0 (((out @ [a]) @ [b]) @ [c])"
    by (simp only: a2b_fourth [OF sextets(4) [OF a b c]] octets(5) [OF a b c])
  also have "\<dots> = Inr ((((out @ [a]) @ [b]) @ [c]) @ rest)"
    by (rule "4.IH" [OF r])
  finally show ?case by simp
qed

lemma pad_ascii: "(of_char (CHR ''='') :: nat) < 128"
  by simp

lemma b64encode_ascii: "list_all (\<lambda>b. b < 256) bs \<Longrightarrow> list_all (\<lambda>c. (of_char c :: nat) < 128) (b64encode bs)"
proof (induction bs rule: b64encode.induct)
  case 1
  show ?case by simp
next
  case (2 a)
  then have a: "a < 256" by simp
  note s = sextets(1,5) [OF a a a]
  show ?case
    by (simp add: b64_alphabet_ascii [OF s(1)] b64_alphabet_ascii [OF s(2)])
next
  case (3 a b)
  then have a: "a < 256" and b: "b < 256" by simp_all
  note s = sextets(1,2,6) [OF a b b]
  show ?case
    by (simp add: b64_alphabet_ascii [OF s(1)] b64_alphabet_ascii [OF s(2)] b64_alphabet_ascii [OF s(3)])
next
  case (4 a b c rest)
  then have a: "a < 256" and b: "b < 256" and c: "c < 256" and r: "list_all (\<lambda>b. b < 256) rest"
    by simp_all
  note s = sextets(1,2,3,4) [OF a b c]
  show ?case
    by (simp add: b64_alphabet_ascii [OF s(1)] b64_alphabet_ascii [OF s(2)]
          b64_alphabet_ascii [OF s(3)] b64_alphabet_ascii [OF s(4)] "4.IH" [OF r])
qed

lemma b64decode_b64encode: "list_all (\<lambda>b. b < 256) bs \<Longrightarrow> b64decode (b64encode bs) = Inr bs"
proof -
  assume b: "list_all (\<lambda>b. b < 256) bs"
  from a2b_b64encode [OF b, of 0 "[]"] have "a2b_base64 (b64encode bs) 0 0 0 [] = Inr bs"
    by simp
  with b64encode_ascii [OF b] show ?thesis
    by (simp only: b64decode_def if_True)
qed

section \<open>Properties of the session handler\<close>

lemma handler_logger_fields [simp]:
  "running (handler_logger l m h) = running h"
  "ble_manager (handler_logger l m h) = ble_manager h"
  "sent (handler_logger l m h) = sent h"
  "send_results (handler_logger l m h) = send_results h"
  by (simp_all add: handler_logger_def)

lemma socket_accepts_logger [simp]: "socket_accepts (handler_logger l m h) = socket_accepts h"
  by (simp add: socket_accepts_def)

lemma send_message_manager [simp]: "ble_manager (send_message ev h) = ble_manager h"
  by (simp add: send_message_def split: list.splits option.splits)

lemma send_message_accepted:
  "socket_accepts h \<Longrightarrow>
     sent (send_message ev h) = sent h @ [ev] \<and> running (send_message ev h) = running h \<and>
     send_results (send_message ev h) = tl (send_results h)"
  by (auto simp: socket_accepts_def send_message_def split: list.splits option.splits)

lemma send_error_manager [simp]: "ble_manager (send_error msg d h) = ble_manager h"
  by (simp add: send_error_def)

lemma send_error_accepted:
  "socket_accepts h \<Longrightarrow>
     sent (send_error msg d h) = sent h @ [BLEErrorMessage msg d] \<and>
     running (send_error msg d h) = running h"
  by (simp add: send_error_def send_message_accepted)

lemma send_status_manager [simp]: "ble_manager (send_status ops c msg h) = ble_manager h"
  by (simp add: send_status_def Let_def)

lemma failed_manager [simp]: "ble_manager (failed what e h) = ble_manager h"
  by (simp add: failed_def)

lemma failed_accepted:
  "socket_accepts h \<Longrightarrow>
     sent (failed what e h) = sent h @ [BLEErrorMessage (what @ '' failed: '' @ exc_str e) None] \<and>
     running (failed what e h) = running h"
  by (simp add: failed_def send_error_accepted)

lemma command_tag_None: "command_tag v = None \<Longrightarrow> v \<noteq> Some (PyStr (BLEMessageType t))"
  by (cases t) (auto simp: command_tag_def split: if_splits)

lemma command_tag_Some: "command_tag v = Some t \<Longrightarrow> v = Some (PyStr (BLEMessageType t))"
  by (auto simp: command_tag_def split: if_splits)

lemma handle_message_invalid:
  assumes "frame_invalid cd data"
  shows "(\<exists>msg. handle_message ops cd data h = (Inr (), send_error msg None h)) \<or>
         (\<exists>e. handle_message ops cd data h = (Inl e, h) \<and> exc_cls e = AttributeError)"
proof (cases "json_loads cd data")
  case (Inl e)
  with assms have "handle_message ops cd data h =
      (Inr (), send_error (''Invalid JSON: '' @ exc_str e) None h)"
    by (simp add: frame_invalid_def handle_message_def handle_message_try_def)
  then show ?thesis by blast
next
  case (Inr v)
  show ?thesis
  proof (cases v)
    case (PyDict message)
    show ?thesis
    proof (cases "command_tag (map_of message ''type'')")
      case None
      note n = command_tag_None [OF None, of CONNECT] command_tag_None [OF None, of DISCONNECT]
        command_tag_None [OF None, of WRITE] command_tag_None [OF None, of SUBSCRIBE]
        command_tag_None [OF None, of UNSUBSCRIBE] command_tag_None [OF None, of DISCOVER]
      from n Inr PyDict have "handle_message ops cd data h =
          (Inr (), send_error (''Unknown message type: '' @ py_str cd (map_of message ''type'')) None h)"
        by (simp add: handle_message_def handle_message_try_def Let_def)
      then show ?thesis by blast
    next
      case (Some t)
      with assms Inr PyDict obtain e where e: "schema_error cd t message = Some e" "exc_cls e = ValidationError"
        by (auto simp: frame_invalid_def split: option.splits)
      from Some have t: "map_of message ''type'' = Some (PyStr (BLEMessageType t))"
        by (rule command_tag_Some)
      from e t Inr PyDict have "handle_message ops cd data h =
          (Inr (), send_error (''Invalid message format: '' @ exc_str e) None h)"
        by (cases t)
           (auto simp: handle_message_def handle_message_try_def Let_def validated_def split: sum.splits)
      then show ?thesis by blast
    qed
  qed (use Inr in \<open>simp_all add: handle_message_def handle_message_try_def\<close>)
qed

lemma grows_trans:
  "\<exists>r. sent (b :: 'm handler) = sent (a :: 'm handler) @ r \<Longrightarrow> \<exists>r. sent (c :: 'm handler) = sent b @ r \<Longrightarrow>
     \<exists>r. sent c = sent a @ r"
  by auto

lemma handler_logger_grows: "\<exists>r. sent (handler_logger l m h) = sent h @ r"
  by simp

lemma send_message_grows: "\<exists>r. sent (send_message ev h) = sent h @ r"
  by (simp add: send_message_def split: list.splits option.splits)

lemma send_error_grows: "\<exists>r. sent (send_error m d h) = sent h @ r"
  by (simp add: send_error_def send_message_grows)

lemma send_status_grows: "\<exists>r. sent (send_status ops c m h) = sent h @ r"
  by (simp add: send_status_def Let_def send_message_grows)

lemma failed_grows: "\<exists>r. sent (failed what e h) = sent h @ r"
  using send_error_grows [of "what @ '' failed: '' @ exc_str e" None
          "handler_logger ERROR (what @ '' failed: '' @ exc_str e) h"]
  by (simp add: failed_def)

lemma loop_except_grows: "\<exists>r. sent (loop_except e h) = sent h @ r"
  using send_error_grows [of "''Error handling message: '' @ exc_str e" None
          "handler_logger ERROR (''Error handling message: '' @ exc_str e) h"]
  by (simp add: loop_except_def)

lemma with_manager_sent: "with_manager attr h f = (r, h1) \<Longrightarrow> sent h1 = sent h"
  by (auto simp: with_manager_def split: option.splits prod.splits)

lemma handle_connect_grows: "\<exists>r. sent (handle_connect ops m h) = sent h @ r"
proof (cases m)
  case (BLEConnectMessage su da)
  obtain r h1 where w: "with_manager ''connect'' h (bm_connect ops su da) = (r, h1)"
    by (cases "with_manager ''connect'' h (bm_connect ops su da)")
  note s = with_manager_sent [OF w]
  show ?thesis
  proof (cases r)
    case (Inl e)
    with failed_grows [of "''Connect''" e h1] w s BLEConnectMessage show ?thesis by simp
  next
    case (Inr i)
    with send_message_grows [of _ h1] w s BLEConnectMessage show ?thesis by (cases i) simp
  qed
qed

lemma handle_disconnect_grows: "\<exists>r. sent (handle_disconnect ops m h) = sent h @ r"
proof (cases m)
  case BLEDisconnectMessage
  obtain r h1 where w: "with_manager ''disconnect'' h (bm_disconnect ops) = (r, h1)"
    by (cases "with_manager ''disconnect'' h (bm_disconnect ops)")
  note s = with_manager_sent [OF w]
  show ?thesis
  proof (cases r)
    case (Inl e)
    with failed_grows [of "''Disconnect''" e h1] w s BLEDisconnectMessage show ?thesis by simp
  next
    case (Inr i)
    with send_message_grows [of _ h1] w s BLEDisconnectMessage show ?thesis by simp
  qed
qed

lemma handle_write_grows: "\<exists>r. sent (handle_write ops m h) = sent h @ r"
proof (cases m)
  case (BLEWriteMessage cu data wr)
  show ?thesis
  proof (cases "b64decode data")
    case (Inl e)
    with failed_grows [of "''Write''" e h] BLEWriteMessage show ?thesis by simp
  next
    case (Inr bytes)
    obtain r h1 where w: "with_manager ''write'' h (bm_write ops cu bytes wr) = (r, h1)"
      by (cases "with_manager ''write'' h (bm_write ops cu bytes wr)")
    note s = with_manager_sent [OF w]
    show ?thesis
    proof (cases r)
      case (Inl e)
      with failed_grows [of "''Write''" e h1] w s Inr BLEWriteMessage show ?thesis by simp
    next
      case (Inr i)
      with send_status_grows [of ops _ _ h1] w s \<open>b64decode data = Inr bytes\<close> BLEWriteMessage
      show ?thesis by simp
    qed
  qed
qed

lemma handle_subscribe_grows: "\<exists>r. sent (handle_subscribe ops m h) = sent h @ r"
proof (cases m)
  case (BLESubscribeMessage cu)
  obtain r h1 where w: "with_manager ''subscribe'' h (bm_subscribe ops cu) = (r, h1)"
    by (cases "with_manager ''subscribe'' h (bm_subscribe ops cu)")
  note s = with_manager_sent [OF w]
  show ?thesis
  proof (cases r)
    case (Inl e)
    with failed_grows [of "''Subscribe''" e h1] w s BLESubscribeMessage show ?thesis by simp
  next
    case (Inr i)
    with send_status_grows [of ops _ _ h1] w s BLESubscribeMessage show ?thesis by simp
  qed
qed

lemma handle_unsubscribe_grows: "\<exists>r. sent (handle_unsubscribe ops m h) = sent h @ r"
proof (cases m)
  case (BLEUnsubscribeMessage cu)
  obtain r h1 where w: "with_manager ''unsubscribe'' h (bm_unsubscribe ops cu) = (r, h1)"
    by (cases "with_manager ''unsubscribe'' h (bm_unsubscribe ops cu)")
  note s = with_manager_sent [OF w]
  show ?thesis
  proof (cases r)
    case (Inl e)
    with failed_grows [of "''Unsubscribe''" e h1] w s BLEUnsubscribeMessage show ?thesis by simp
  next
    case (Inr i)
    with send_status_grows [of ops _ _ h1] w s BLEUnsubscribeMessage show ?thesis by simp
  qed
qed

lemma handle_discover_grows: "\<exists>r. sent (handle_discover ops m h) = sent h @ r"
proof (cases m)
  case (BLEDiscoverMessage su t)
  obtain r h1 where w: "with_manager ''discover_devices'' h (bm_discover_devices ops su t) = (r, h1)"
    by (cases "with_manager ''discover_devices'' h (bm_discover_devices ops su t)")
  note s = with_manager_sent [OF w]
  show ?thesis
  proof (cases r)
    case (Inl e)
    with failed_grows [of "''Discovery''" e h1] w s BLEDiscoverMessage show ?thesis by simp
  next
    case (Inr i)
    with send_message_grows [of _ h1] w s BLEDiscoverMessage show ?thesis by simp
  qed
qed

lemma validated_grows:
  assumes "\<And>m. \<exists>r. sent (f m h) = sent h @ r"
  shows "\<exists>r. sent (snd (validated v f h)) = sent h @ r"
  using assms by (cases v) (auto simp: validated_def)

lemma handle_message_try_grows: "\<exists>r. sent (snd (handle_message_try ops cd data h)) = sent h @ r"
proof (cases "json_loads cd data")
  case (Inl e)
  then show ?thesis by (simp add: handle_message_try_def)
next
  case (Inr v)
  show ?thesis
  proof (cases v)
    case (PyDict message)
    note g = validated_grows [where f = "handle_connect ops", OF handle_connect_grows]
      validated_grows [where f = "handle_disconnect ops", OF handle_disconnect_grows]
      validated_grows [where f = "handle_write ops", OF handle_write_grows]
      validated_grows [where f = "handle_subscribe ops", OF handle_subscribe_grows]
      validated_grows [where f = "handle_unsubscribe ops", OF handle_unsubscribe_grows]
      validated_grows [where f = "handle_discover ops", OF handle_discover_grows]
    from Inr PyDict show ?thesis
      by (simp add: handle_message_try_def Let_def g send_error_grows)
  qed (use Inr in \<open>simp_all add: handle_message_try_def\<close>)
qed

lemma handle_message_grows: "\<exists>r. sent (snd (handle_message ops cd data h)) = sent h @ r"
proof (cases "handle_message_try ops cd data h")
  case (Pair res h2)
  with handle_message_try_grows [of ops cd data h] have g: "\<exists>r. sent h2 = sent h @ r" by simp
  show ?thesis
  proof (cases res)
    case (Inr u)
    with Pair g show ?thesis by (simp add: handle_message_def)
  next
    case (Inl e)
    from g send_error_grows [of _ None h2] have "\<And>m. \<exists>r. sent (send_error m None h2) = sent h @ r"
      by (rule grows_trans)
    with Pair Inl g show ?thesis by (simp add: handle_message_def)
  qed
qed

lemma message_loop_grows: "\<exists>r. sent (message_loop ops cd frames h) = sent h @ r"
proof (induction frames arbitrary: h)
  case Nil
  show ?case by simp
next
  case (Cons f frames)
  show ?case
  proof (cases "running h")
    case False
    then show ?thesis by simp
  next
    case True
    obtain res h1 where s: "(case f of Raises e \<Rightarrow> (Inl e, h) | Frame data \<Rightarrow> handle_message ops cd data h) = (res, h1)"
      by (cases "case f of Raises e \<Rightarrow> (Inl e, h) | Frame data \<Rightarrow> handle_message ops cd data h")
    have g1: "\<exists>r. sent h1 = sent h @ r"
    proof (cases f)
      case (Frame data)
      with s handle_message_grows [of ops cd data h] show ?thesis by simp
    next
      case (Raises e)
      with s show ?thesis by simp
    qed
    show ?thesis
    proof (cases res)
      case (Inr u)
      from g1 Cons.IH [of h1] have "\<exists>r. sent (message_loop ops cd frames h1) = sent h @ r"
        by (rule grows_trans)
      with True s Inr show ?thesis by simp
    next
      case (Inl e)
      show ?thesis
      proof (cases "exc_cls e = WebSocketDisconnect")
        case True
        with \<open>running h\<close> s Inl g1 show ?thesis by simp
      next
        case False
        from g1 loop_except_grows [of e h1] have "\<exists>r. sent (loop_except e h1) = sent h @ r"
          by (rule grows_trans)
        from this Cons.IH [of "loop_except e h1"]
        have "\<exists>r. sent (message_loop ops cd frames (loop_except e h1)) = sent h @ r"
          by (rule grows_trans)
        with \<open>running h\<close> s Inl False show ?thesis by simp
      qed
    qed
  qed
qed

text \<open>
  Claim C3. While the session runs and the socket takes the next frame, a frame that is
  malformed JSON or violates the command schema is answered by exactly one error event,
  and the session stays open. \<open>h1\<close> is the state the code is in after the frame: what
  \<open>handle_message\<close> returns (it sent the error itself), or, when \<open>handle_message\<close>
  raised because the JSON value is not an object, what the \<open>except Exception\<close> clause
  of the loop leaves. In \<open>h1\<close> the handler has sent the one error event and nothing
  else, is still running, and has the manager it had. The loop goes on from \<open>h1\<close> with
  the frames that follow; what it has sent in the end is what was sent before, then the
  error event, then what the later frames bring, and nothing more than the error event
  when no frame follows.
\<close>

theorem invalid_frame_yields_one_error:
  assumes "frame_invalid cd data" and "running h" and "socket_accepts h"
  shows "\<exists>msg h1.
           (handle_message ops cd data h = (Inr (), h1) \<and> h1 = send_error msg None h \<or>
            (\<exists>e. handle_message ops cd data h = (Inl e, h) \<and> exc_cls e = AttributeError \<and>
                 msg = ''Error handling message: '' @ exc_str e \<and> h1 = loop_except e h)) \<and>
           message_loop ops cd (Frame data # later) h = message_loop ops cd later h1 \<and>
           sent h1 = sent h @ [BLEErrorMessage msg None] \<and>
           running h1 \<and> ble_manager h1 = ble_manager h \<and>
           sent (message_loop ops cd [Frame data] h) = sent h @ [BLEErrorMessage msg None] \<and>
           (\<exists>rest. sent (message_loop ops cd (Frame data # later) h) =
                     sent h @ BLEErrorMessage msg None # rest)"
proof -
  have tail: "\<exists>rest. sent (message_loop ops cd (Frame data # later) h) = sent h @ BLEErrorMessage msg None # rest"
    if l: "message_loop ops cd (Frame data # later) h = message_loop ops cd later h1"
    and s: "sent h1 = sent h @ [BLEErrorMessage msg None]" for msg h1
  proof -
    from message_loop_grows [of ops cd later h1] obtain r where
      "sent (message_loop ops cd later h1) = sent h1 @ r" by blast
    with l s show ?thesis by simp
  qed
  have single: "sent (message_loop ops cd [Frame data] h) = sent h @ [BLEErrorMessage msg None]"
    if l: "message_loop ops cd [Frame data] h = message_loop ops cd [] h1"
    and s: "sent h1 = sent h @ [BLEErrorMessage msg None]" for msg h1
    using l s by simp
  from handle_message_invalid [OF assms(1), of ops h]
  consider msg where "handle_message ops cd data h = (Inr (), send_error msg None h)"
    | e where "handle_message ops cd data h = (Inl e, h)" "exc_cls e = AttributeError"
    by blast
  then show ?thesis
  proof cases
    case 1
    with assms(2) have l: "message_loop ops cd (Frame data # fs) h =
        message_loop ops cd fs (send_error msg None h)" for fs
      by simp
    from send_error_accepted [OF assms(3), of msg None] assms(2)
    have p: "sent (send_error msg None h) = sent h @ [BLEErrorMessage msg None]"
         "running (send_error msg None h)" "ble_manager (send_error msg None h) = ble_manager h"
      by simp_all
    from 1 l [of later] p single [OF l [of "[]"] p(1)] tail [OF l [of later] p(1)]
    show ?thesis by blast
  next
    case 2
    with assms(2) have l: "message_loop ops cd (Frame data # fs) h =
        message_loop ops cd fs (loop_except e h)" for fs
      by simp
    from assms(3) have "socket_accepts (handler_logger ERROR (''Error handling message: '' @ exc_str e) h)"
      by simp
    from send_error_accepted [OF this, of "''Error handling message: '' @ exc_str e" None] assms(2)
    have p: "sent (loop_except e h) = sent h @ [BLEErrorMessage (''Error handling message: '' @ exc_str e) None]"
         "running (loop_except e h)" "ble_manager (loop_except e h) = ble_manager h"
      by (simp_all add: loop_except_def)
    from 2 l [of later] p single [OF l [of "[]"] p(1)] tail [OF l [of later] p(1)]
    show ?thesis by blast
  qed
qed

theorem invalid_frame_yields_one_error_witness:
  "frame_invalid example_codec ''{'' \<and> frame_invalid example_codec ''[]'' \<and>
   frame_invalid example_codec ''{}'' \<and> frame_invalid example_codec write_without_fields \<and>
   running ready_handler \<and> socket_accepts ready_handler \<and>
   (\<exists>msg. sent (message_loop recording_manager example_codec [Frame write_without_fields] ready_handler) =
            sent ready_handler @ [BLEErrorMessage msg None]) \<and>
   (\<exists>msg h1.
      message_loop recording_manager example_codec [Frame write_without_fields, Frame ''{}''] ready_handler =
        message_loop recording_manager example_codec [Frame ''{}''] h1 \<and>
      sent h1 = sent ready_handler @ [BLEErrorMessage msg None] \<and> running h1)"
proof -
  have i: "frame_invalid example_codec ''{''" "frame_invalid example_codec ''[]''"
    "frame_invalid example_codec ''{}''" "frame_invalid example_codec write_without_fields"
    by code_simp+
  have r: "running ready_handler" "socket_accepts ready_handler"
    by (simp_all add: ready_handler_def socket_accepts_def)
  from invalid_frame_yields_one_error [OF i(4) r, of recording_manager "[Frame ''{}'']"] i r
  show ?thesis by blast
qed

text \<open>
  Four frames that do not decode, one after the other: four error events, in order, and
  the session is still reading when the client goes.
\<close>

lemma four_invalid_frames_four_errors:
  "sent (message_loop recording_manager example_codec
           [Frame ''{'', Frame ''[]'', Frame ''{}'', Frame write_without_fields] ready_handler) =
     [BLEErrorMessage ''Invalid JSON: Expecting value: line 1 column 1 (char 0)'' None,
      BLEErrorMessage (''Error handling message: '' @ no_attribute ''list'' ''get'') None,
      BLEErrorMessage ''Unknown message type: None'' None,
      BLEErrorMessage (''Invalid message format: '' @ exc_str (required ''BLEWriteMessage'' ''characteristic_uuid''))
        None]"
  by code_simp

text \<open>
  Claim C10. While the manager reports a connection, the status event that
  \<open>send_status\<close> sends has the manager's \<open>device_address\<close> in its \<open>device_name\<close>
  field.
\<close>

theorem status_device_name_is_device_address:
  assumes "ble_manager h = Some m" and "bm_is_connected ops m"
  shows "send_status ops connected message h =
           send_message (BLEStatusMessage connected (bm_device_address ops m) message) h \<and>
         (socket_accepts h \<longrightarrow>
            sent (send_status ops connected message h) =
              sent h @ [BLEStatusMessage connected (bm_device_address ops m) message])"
  using assms by (simp add: send_status_def send_message_accepted)

theorem status_device_name_is_device_address_witness:
  "ble_manager ready_handler = Some [] \<and> bm_is_connected recording_manager [] \<and>
   socket_accepts ready_handler \<and>
   sent (send_status recording_manager True ''Subscribed to X'' ready_handler) =
     sent ready_handler @ [BLEStatusMessage True (bm_device_address recording_manager []) ''Subscribed to X''] \<and>
   bm_device_address recording_manager [] = Some ''AA:BB:CC:DD:EE:FF''"
proof -
  have h: "ble_manager ready_handler = Some []" "bm_is_connected recording_manager []"
    "socket_accepts ready_handler" "bm_device_address recording_manager [] = Some ''AA:BB:CC:DD:EE:FF''"
    by (simp_all add: ready_handler_def recording_manager_def socket_accepts_def)
  from status_device_name_is_device_address [OF h(1,2), of True "''Subscribed to X''"] h
  show ?thesis by blast
qed

text \<open>
  Claim C9, as stated, fails. The data \<open>AQI\<close> is not valid base64 (the padding is
  missing): the handler answers with the error of a failed write, not with the
  \<open>Invalid message format\<close> error of a schema violation. The data \<open>AQ!ID\<close> is not
  valid base64 either: the decoder drops the \<open>!\<close>, the manager is asked to write the
  bytes 1, 2, 3 and the client is told they were written.
\<close>

theorem undecodable_write_is_a_write_failure:
  "b64decode ''AQI'' = Inl (Exc BinasciiError ''Incorrect padding'') \<and>
   sent (handle_write recording_manager (BLEWriteMessage ''X'' ''AQI'' True) ready_handler) =
     [BLEErrorMessage ''Write failed: Incorrect padding'' None] \<and>
   ble_manager (handle_write recording_manager (BLEWriteMessage ''X'' ''AQ!ID'' True) ready_handler) =
     Some [[1, 2, 3]] \<and>
   sent (handle_write recording_manager (BLEWriteMessage ''X'' ''AQ!ID'' True) ready_handler) =
     [BLEStatusMessage True (Some ''AA:BB:CC:DD:EE:FF'') ''Wrote 3 bytes to X'']"
  by code_simp

text \<open>
  Claim C9, amended. When the decoder rejects the data of a write command, the handler
  sends exactly one error event, \<open>Write failed:\<close> with the decoder's message, and does
  not call the manager; the session keeps running. When the decoder accepts the data,
  the manager's write is called with the decoded bytes; the base64 text of a byte
  string decodes to that byte string.
\<close>

theorem write_payload_is_decoded_in_the_handler:
  assumes "socket_accepts h"
  shows "(b64decode data = Inl e \<longrightarrow>
            sent (handle_write ops (BLEWriteMessage cu data wr) h) =
              sent h @ [BLEErrorMessage (''Write failed: '' @ exc_str e) None] \<and>
            ble_manager (handle_write ops (BLEWriteMessage cu data wr) h) = ble_manager h \<and>
            running (handle_write ops (BLEWriteMessage cu data wr) h) = running h) \<and>
         (b64decode data = Inr bytes \<and> ble_manager h = Some m \<longrightarrow>
            ble_manager (handle_write ops (BLEWriteMessage cu data wr) h) =
              Some (snd (bm_write ops cu bytes wr m))) \<and>
         (list_all (\<lambda>b. b < 256) bytes \<longrightarrow> b64decode (b64encode bytes) = Inr bytes)"
proof (intro conjI impI)
  assume "b64decode data = Inl e"
  with failed_accepted [OF assms, of "''Write''" e]
  show "sent (handle_write ops (BLEWriteMessage cu data wr) h) =
              sent h @ [BLEErrorMessage (''Write failed: '' @ exc_str e) None]"
    and "ble_manager (handle_write ops (BLEWriteMessage cu data wr) h) = ble_manager h"
    and "running (handle_write ops (BLEWriteMessage cu data wr) h) = running h"
    by simp_all
next
  assume "b64decode data = Inr bytes \<and> ble_manager h = Some m"
  then show "ble_manager (handle_write ops (BLEWriteMessage cu data wr) h) =
              Some (snd (bm_write ops cu bytes wr m))"
    by (cases "bm_write ops cu bytes wr m") (auto simp: with_manager_def split: sum.splits)
next
  assume "list_all (\<lambda>b. b < 256) bytes"
  then show "b64decode (b64encode bytes) = Inr bytes"
    by (rule b64decode_b64encode)
qed

theorem write_payload_is_decoded_in_the_handler_witness:
  "socket_accepts ready_handler \<and> b64decode ''A'' \<noteq> Inr [] \<and>
   ble_manager (handle_write recording_manager (BLEWriteMessage ''X'' ''A'' True) ready_handler) =
     ble_manager ready_handler \<and>
   b64decode ''AQID'' = Inr [1, 2, 3] \<and> ble_manager ready_handler = Some [] \<and>
   ble_manager (handle_write recording_manager (BLEWriteMessage ''X'' ''AQID'' True) ready_handler) =
     Some (snd (bm_write recording_manager ''X'' [1, 2, 3] True [])) \<and>
   list_all (\<lambda>b. b < 256) [1, 2, 3 :: nat] \<and> b64decode (b64encode [1, 2, 3]) = Inr [1, 2, 3]"
proof -
  have a: "socket_accepts ready_handler" "ble_manager ready_handler = Some []"
    by (simp_all add: ready_handler_def socket_accepts_def)
  have b: "b64decode ''A'' = Inl (Exc BinasciiError
      ''Invalid base64-encoded string: number of data characters (1) cannot be 1 more than a multiple of 4'')"
    by code_simp
  have c: "b64decode ''AQID'' = Inr [1, 2, 3]"
    by code_simp
  have d: "list_all (\<lambda>b. b < 256) [1, 2, 3 :: nat]" by simp
  from write_payload_is_decoded_in_the_handler [OF a(1), of "''A''" _ recording_manager "''X''" True]
       write_payload_is_decoded_in_the_handler [OF a(1), of "''AQID''" _ recording_manager "''X''" True "[1, 2, 3]" "[]"]
       a b c d
  show ?thesis by simp
qed

subsection \<open>Further properties of the session handler\<close>

lemma cleanup_not_running: "\<not> running (cleanup ops h)"
  by (simp add: cleanup_def)

lemma cleanup_sent: "sent (cleanup ops h) = sent h"
  by (simp add: cleanup_def handler_logger_def split: option.splits prod.splits sum.splits)

text \<open>
  When the BLE manager is not available, \<open>handle\<close> sends one error event and ends
  without reading a frame; the handler is not running afterwards.
\<close>

theorem unavailable_manager_closes_session:
  assumes "get_ble_manager ops = Inl e" and "exc_cls e = BLENotAvailableError" and "socket_accepts h"
  shows "fst (handle ops cd frames h) = Inr () \<and>
         sent (snd (handle ops cd frames h)) =
           sent h @ [BLEErrorMessage (''BLE Proxy not available: '' @ exc_str e @ ''. ''
                                      @ ''Install with: poetry install -E ble-proxy'') None] \<and>
         \<not> running (snd (handle ops cd frames h))"
proof -
  from assms(3) have "socket_accepts (h\<lparr>running := True\<rparr>)"
    by (simp add: socket_accepts_def)
  from send_error_accepted [OF this] assms(1,2) show ?thesis
    by (simp add: handle_def Let_def cleanup_not_running cleanup_sent)
qed

lemma with_manager_socket:
  "with_manager attr h f = (r, h1) \<Longrightarrow> sent h1 = sent h \<and> socket_accepts h1 = socket_accepts h"
  by (auto simp: with_manager_def socket_accepts_def split: option.splits prod.splits)

lemma send_message_one: "socket_accepts h \<Longrightarrow> \<exists>ev. sent (send_message x h) = sent h @ [ev]"
  by (simp add: send_message_accepted)

lemma send_status_one: "socket_accepts h \<Longrightarrow> \<exists>ev. sent (send_status ops c m h) = sent h @ [ev]"
  by (simp add: send_status_def Let_def send_message_accepted)

lemma failed_one: "socket_accepts h \<Longrightarrow> \<exists>ev. sent (failed what e h) = sent h @ [ev]"
  by (simp add: failed_accepted)

lemma send_error_one: "socket_accepts h \<Longrightarrow> \<exists>ev. sent (send_error m d h) = sent h @ [ev]"
  by (simp add: send_error_accepted)

lemma handle_connect_one:
  assumes "socket_accepts h"
  shows "\<exists>ev. sent (handle_connect ops m h) = sent h @ [ev]"
proof (cases m)
  case (BLEConnectMessage su da)
  obtain r h1 where w: "with_manager ''connect'' h (bm_connect ops su da) = (r, h1)"
    by (cases "with_manager ''connect'' h (bm_connect ops su da)")
  from with_manager_socket [OF w] assms have a: "socket_accepts h1" and s: "sent h1 = sent h" by simp_all
  show ?thesis
  proof (cases r)
    case (Inl e)
    with failed_one [OF a, of "''Connect''" e] w s BLEConnectMessage show ?thesis by simp
  next
    case (Inr i)
    with send_message_one [OF a] w s BLEConnectMessage show ?thesis by (cases i) simp
  qed
qed

lemma handle_disconnect_one:
  assumes "socket_accepts h"
  shows "\<exists>ev. sent (handle_disconnect ops m h) = sent h @ [ev]"
proof (cases m)
  case BLEDisconnectMessage
  obtain r h1 where w: "with_manager ''disconnect'' h (bm_disconnect ops) = (r, h1)"
    by (cases "with_manager ''disconnect'' h (bm_disconnect ops)")
  from with_manager_socket [OF w] assms have a: "socket_accepts h1" and s: "sent h1 = sent h" by simp_all
  show ?thesis
  proof (cases r)
    case (Inl e)
    with failed_one [OF a, of "''Disconnect''" e] w s BLEDisconnectMessage show ?thesis by simp
  next
    case (Inr i)
    with send_message_one [OF a] w s BLEDisconnectMessage show ?thesis by simp
  qed
qed

lemma handle_write_one:
  assumes "socket_accepts h"
  shows "\<exists>ev. sent (handle_write ops m h) = sent h @ [ev]"
proof (cases m)
  case (BLEWriteMessage cu data wr)
  show ?thesis
  proof (cases "b64decode data")
    case (Inl e)
    with failed_one [OF assms, of "''Write''" e] BLEWriteMessage show ?thesis by simp
  next
    case (Inr bytes)
    obtain r h1 where w: "with_manager ''write'' h (bm_write ops cu bytes wr) = (r, h1)"
      by (cases "with_manager ''write'' h (bm_write ops cu bytes wr)")
    from with_manager_socket [OF w] assms have a: "socket_accepts h1" and s: "sent h1 = sent h" by simp_all
    show ?thesis
    proof (cases r)
      case (Inl e)
      with failed_one [OF a, of "''Write''" e] w s Inr BLEWriteMessage show ?thesis by simp
    next
      case (Inr i)
      with send_status_one [OF a] w s \<open>b64decode data = Inr bytes\<close> BLEWriteMessage show ?thesis by simp
    qed
  qed
qed

lemma handle_subscribe_one:
  assumes "socket_accepts h"
  shows "\<exists>ev. sent (handle_subscribe ops m h) = sent h @ [ev]"
proof (cases m)
  case (BLESubscribeMessage cu)
  obtain r h1 where w: "with_manager ''subscribe'' h (bm_subscribe ops cu) = (r, h1)"
    by (cases "with_manager ''subscribe'' h (bm_subscribe ops cu)")
  from with_manager_socket [OF w] assms have a: "socket_accepts h1" and s: "sent h1 = sent h" by simp_all
  show ?thesis
  proof (cases r)
    case (Inl e)
    with failed_one [OF a, of "''Subscribe''" e] w s BLESubscribeMessage show ?thesis by simp
  next
    case (Inr i)
    with send_status_one [OF a] w s BLESubscribeMessage show ?thesis by simp
  qed
qed

lemma handle_unsubscribe_one:
  assumes "socket_accepts h"
  shows "\<exists>ev. sent (handle_unsubscribe ops m h) = sent h @ [ev]"
proof (cases m)
  case (BLEUnsubscribeMessage cu)
  obtain r h1 where w: "with_manager ''unsubscribe'' h (bm_unsubscribe ops cu) = (r, h1)"
    by (cases "with_manager ''unsubscribe'' h (bm_unsubscribe ops cu)")
  from with_manager_socket [OF w] assms have a: "socket_accepts h1" and s: "sent h1 = sent h" by simp_all
  show ?thesis
  proof (cases r)
    case (Inl e)
    with failed_one [OF a, of "''Unsubscribe''" e] w s BLEUnsubscribeMessage show ?thesis by simp
  next
    case (Inr i)
    with send_status_one [OF a] w s BLEUnsubscribeMessage show ?thesis by simp
  qed
qed

lemma handle_discover_one:
  assumes "socket_accepts h"
  shows "\<exists>ev. sent (handle_discover ops m h) = sent h @ [ev]"
proof (cases m)
  case (BLEDiscoverMessage su t)
  obtain r h1 where w: "with_manager ''discover_devices'' h (bm_discover_devices ops su t) = (r, h1)"
    by (cases "with_manager ''discover_devices'' h (bm_discover_devices ops su t)")
  from with_manager_socket [OF w] assms have a: "socket_accepts h1" and s: "sent h1 = sent h" by simp_all
  show ?thesis
  proof (cases r)
    case (Inl e)
    with failed_one [OF a, of "''Discovery''" e] w s BLEDiscoverMessage show ?thesis by simp
  next
    case (Inr i)
    with send_message_one [OF a] w s BLEDiscoverMessage show ?thesis by simp
  qed
qed

lemma validated_one:
  assumes "socket_accepts h" and "\<And>m. \<exists>ev. sent (f m h) = sent h @ [ev]"
      and "validated v f h = (Inr u, h1)"
  shows "\<exists>ev. sent h1 = sent h @ [ev]"
  using assms by (cases v) (auto simp: validated_def)

lemma validated_Inl: "validated v f h = (Inl e, h1) \<Longrightarrow> h1 = h"
  by (cases v) (auto simp: validated_def)

lemma handle_message_try_one:
  assumes "socket_accepts h"
  shows "(\<forall>h1. handle_message_try ops cd data h = (Inr (), h1) \<longrightarrow> (\<exists>ev. sent h1 = sent h @ [ev])) \<and>
         (\<forall>e h1. handle_message_try ops cd data h = (Inl e, h1) \<longrightarrow> h1 = h)"
proof (cases "json_loads cd data")
  case (Inl e)
  then show ?thesis by (simp add: handle_message_try_def)
next
  case (Inr v)
  show ?thesis
  proof (cases v)
    case (PyDict message)
    note one = validated_one [where f = "handle_connect ops", OF assms handle_connect_one [OF assms]]
      validated_one [where f = "handle_disconnect ops", OF assms handle_disconnect_one [OF assms]]
      validated_one [where f = "handle_write ops", OF assms handle_write_one [OF assms]]
      validated_one [where f = "handle_subscribe ops", OF assms handle_subscribe_one [OF assms]]
      validated_one [where f = "handle_unsubscribe ops", OF assms handle_unsubscribe_one [OF assms]]
      validated_one [where f = "handle_discover ops", OF assms handle_discover_one [OF assms]]
    from Inr PyDict send_error_one [OF assms] show ?thesis
      by (auto simp: handle_message_try_def Let_def dest: one validated_Inl)
  qed (use Inr in \<open>simp_all add: handle_message_try_def\<close>)
qed

text \<open>
  Every frame that \<open>handle_message\<close> handles without raising is answered by exactly
  one event.
\<close>

theorem every_command_gets_one_event:
  assumes "socket_accepts h" and "handle_message ops cd data h = (Inr (), h1)"
  shows "\<exists>ev. sent h1 = sent h @ [ev]"
proof (cases "handle_message_try ops cd data h")
  case (Pair r h2)
  show ?thesis
  proof (cases r)
    case (Inr u)
    with Pair assms(2) handle_message_try_one [OF assms(1), of ops cd data] show ?thesis
      by (simp add: handle_message_def)
  next
    case (Inl e)
    with Pair handle_message_try_one [OF assms(1), of ops cd data] have "h2 = h" by simp
    with Pair Inl assms(2) send_error_one [OF assms(1)] show ?thesis
      by (auto simp: handle_message_def split: if_splits)
  qed
qed

theorem every_command_gets_one_event_witness:
  "socket_accepts ready_handler \<and>
   handle_message recording_manager example_codec ''{}'' ready_handler =
     (Inr (), snd (handle_message recording_manager example_codec ''{}'' ready_handler)) \<and>
   (\<exists>ev. sent (snd (handle_message recording_manager example_codec ''{}'' ready_handler)) =
           sent ready_handler @ [ev])"
proof -
  have a: "socket_accepts ready_handler"
    by (simp add: ready_handler_def socket_accepts_def)
  have "fst (handle_message recording_manager example_codec ''{}'' ready_handler) = Inr ()"
    by code_simp
  then have b: "handle_message recording_manager example_codec ''{}'' ready_handler =
     (Inr (), snd (handle_message recording_manager example_codec ''{}'' ready_handler))"
    by (simp add: prod_eq_iff)
  from every_command_gets_one_event [OF a b] a b show ?thesis by blast
qed

end
